theory Spec2Isabelle
  imports
    Main
    "HOL-Library.Word"
    "HOL-Library.Sublist"
    "HOL-Library.AList"
    "HOL-Library.Multiset"
    "HOL-Library.Char_ord"
    "HOL-Library.List_Lexorder"
begin

section \<open>SyncUsingWS: a WebDAV directory synchroniser\<close>

text \<open>
  The development follows the Go packages of the repository: \<^verbatim>\<open>pkg/util\<close> (retry),
  \<^verbatim>\<open>pkg/config\<close> (sync mode), \<^verbatim>\<open>pkg/client\<close> (WebDAV client wrapper) and
  \<^verbatim>\<open>pkg/sync\<close> (the synchronisation manager).

  Conventions of the embedding:
  \<^item> a Go \<^verbatim>\<open>error\<close> is a value of \<open>error option\<close>, \<open>None\<close> being \<^verbatim>\<open>nil\<close>;
    a pair \<^verbatim>\<open>(v, err)\<close> is a sum \<open>error + 'a\<close>;
  \<^item> a \<^verbatim>\<open>time.Time\<close> is an instant in integer nanoseconds, a \<^verbatim>\<open>time.Duration\<close>
    is a signed 64-bit word of nanoseconds (\<^verbatim>\<open>sleep *= 2\<close> wraps);
  \<^item> the operating system, the WebDAV server and the \<^verbatim>\<open>path/filepath\<close> package are
    outside the repository: they are a record of primitives over a state type, and every
    function of the repository is translated over that record in state-passing style.
\<close>

subsection \<open>Errors\<close>

text \<open>
  \<open>Err m\<close> is an error produced outside the repository, with its message.
  \<open>Wrapf tag e\<close> is \<^verbatim>\<open>fmt.Errorf("<tag>: %v", e)\<close> (the message texts of the source
  are abbreviated to an ASCII tag), \<open>RetryFailed n e\<close> is the error built at the end of
  \<^verbatim>\<open>Retry\<close>, \<open>SyncErrors k e\<close> the aggregate built at the end of a directory level, and
  \<open>UnknownMode m\<close> the error of the \<^verbatim>\<open>default\<close> branch of \<^verbatim>\<open>StartSync\<close>.
\<close>

datatype error =
    Err string
  | Wrapf string error
  | RetryFailed int "error option"
  | SyncErrors nat error
  | UnknownMode string

type_synonym Time = int
type_synonym Duration = "64 word"

subsection \<open>pkg/util: Retry\<close>

text \<open>
  \<^verbatim>\<open>
  func Retry(attempts int, sleep time.Duration, operation func() error) error {
      var err error
      for i := 0; i < attempts; i++ {
          err = operation()
          if err == nil { return nil }
          if i < attempts-1 {
              time.Sleep(sleep)
              sleep *= 2
          }
      }
      return fmt.Errorf("... %d ...: %v", attempts, err)
  }
  \<close>
  The operation and \<^verbatim>\<open>time.Sleep\<close> act on a state \<open>'s\<close>. Besides the returned error
  and the final state the model returns the sequence of what happened: each invocation
  with its result and each sleep with its duration.
\<close>

datatype retry_event = Invoked "error option" | Slept Duration

function Retry_loop ::
  "int \<Rightarrow> int \<Rightarrow> Duration \<Rightarrow> ('s \<Rightarrow> error option \<times> 's) \<Rightarrow> (Duration \<Rightarrow> 's \<Rightarrow> 's)
     \<Rightarrow> error option \<Rightarrow> 's \<Rightarrow> error option \<times> 's \<times> retry_event list" where
  "Retry_loop attempts i sleep operation time_Sleep err s =
     (if i < attempts then
        (case operation s of
           (None, s1) \<Rightarrow> (None, s1, [Invoked None])
         | (Some e, s1) \<Rightarrow>
             if i < attempts - 1 then
               (case Retry_loop attempts (i + 1) (sleep * 2) operation time_Sleep (Some e)
                       (time_Sleep sleep s1) of
                  (r, s2, evs) \<Rightarrow> (r, s2, Invoked (Some e) # Slept sleep # evs))
             else
               (case Retry_loop attempts (i + 1) sleep operation time_Sleep (Some e) s1 of
                  (r, s2, evs) \<Rightarrow> (r, s2, Invoked (Some e) # evs)))
      else (Some (RetryFailed attempts err), s, []))"
  by pat_completeness auto
termination
  by (relation "measure (\<lambda>(attempts, i, sleep, operation, time_Sleep, err, s). nat (attempts - i))")
    auto

definition Retry ::
  "int \<Rightarrow> Duration \<Rightarrow> ('s \<Rightarrow> error option \<times> 's) \<Rightarrow> (Duration \<Rightarrow> 's \<Rightarrow> 's)
     \<Rightarrow> 's \<Rightarrow> error option \<times> 's \<times> retry_event list" where
  "Retry attempts sleep operation time_Sleep s =
     Retry_loop attempts 0 sleep operation time_Sleep None s"

text \<open>Reading the event sequence.\<close>

fun invocations :: "retry_event list \<Rightarrow> error option list" where
  "invocations [] = []"
| "invocations (Invoked r # evs) = r # invocations evs"
| "invocations (Slept d # evs) = invocations evs"

fun sleeps :: "retry_event list \<Rightarrow> Duration list" where
  "sleeps [] = []"
| "sleeps (Invoked r # evs) = sleeps evs"
| "sleeps (Slept d # evs) = d # sleeps evs"

text \<open>
  The shape the specification gives to a run with the invocation results \<open>rs\<close>: a sleep
  between two consecutive invocations, none after the last, the delay doubling.
\<close>

fun backoff_schedule :: "Duration \<Rightarrow> error option list \<Rightarrow> retry_event list" where
  "backoff_schedule d [] = []"
| "backoff_schedule d [r] = [Invoked r]"
| "backoff_schedule d (r # r' # rs) = Invoked r # Slept d # backoff_schedule (d * 2) (r' # rs)"

text \<open>
  The events are meant as a record of the calls the run makes. \<open>genuine\<close> says so for a
  sequence of events, an operation, a sleep function and a start state: each recorded result
  is what the operation returns in the state reached so far. \<open>replay\<close> is the state reached
  by making the recorded calls, to the operation and to the sleep function, in their order.
\<close>

fun replay :: "('s \<Rightarrow> error option \<times> 's) \<Rightarrow> (Duration \<Rightarrow> 's \<Rightarrow> 's) \<Rightarrow> retry_event list \<Rightarrow> 's \<Rightarrow> 's" where
  "replay operation pause [] s = s"
| "replay operation pause (Invoked r # evs) s = replay operation pause evs (snd (operation s))"
| "replay operation pause (Slept d # evs) s = replay operation pause evs (pause d s)"

fun genuine :: "('s \<Rightarrow> error option \<times> 's) \<Rightarrow> (Duration \<Rightarrow> 's \<Rightarrow> 's) \<Rightarrow> retry_event list \<Rightarrow> 's \<Rightarrow> bool" where
  "genuine operation pause [] s = True"
| "genuine operation pause (Invoked r # evs) s =
     (fst (operation s) = r \<and> genuine operation pause evs (snd (operation s)))"
| "genuine operation pause (Slept d # evs) s = genuine operation pause evs (pause d s)"

subsection \<open>pkg/config: the configuration and the sync mode\<close>

text \<open>
  \<^verbatim>\<open>type SyncMode string\<close> with the constants \<^verbatim>\<open>BackupMode = "backup"\<close> and
  \<^verbatim>\<open>RestoreMode = "restore"\<close>. The record keeps the fields of \<^verbatim>\<open>Config\<close> that the
  synchronisation reads (the server address and credentials are used only to build the client).
\<close>

type_synonym SyncMode = string

definition BackupMode :: SyncMode where
  "BackupMode = ''backup''"

definition RestoreMode :: SyncMode where
  "RestoreMode = ''restore''"

record Config =
  LocalDir :: string
  Mode :: string
  SyncDelete :: bool
  CompareContent :: bool
  MaxConcurrent :: int
  MaxRetries :: int
  RetryDelay :: Duration

text \<open>
  \<^verbatim>\<open>
  func (c *Config) GetSyncMode() SyncMode {
      switch c.Mode {
      case string(BackupMode):  return BackupMode
      case string(RestoreMode): return RestoreMode
      default:                  return RestoreMode
      }
  }
  \<close>
\<close>

definition GetSyncMode :: "Config \<Rightarrow> SyncMode" where
  "GetSyncMode c =
     (if Mode c = BackupMode then BackupMode
      else if Mode c = RestoreMode then RestoreMode
      else RestoreMode)"

subsection \<open>The world outside the repository\<close>

text \<open>
  \<open>FileInfo\<close> is the struct of \<^verbatim>\<open>pkg/client\<close>; \<open>os_FileInfo\<close> is what the methods
  \<^verbatim>\<open>Name()\<close>, \<^verbatim>\<open>IsDir()\<close>, \<^verbatim>\<open>ModTime()\<close> and \<^verbatim>\<open>Size()\<close> of an \<^verbatim>\<open>os.FileInfo\<close>
  (or \<^verbatim>\<open>os.DirEntry\<close>) answer.
\<close>

type_synonym byte = "8 word"

record FileInfo =
  Path :: string
  IsDir :: bool
  LastModified :: Time
  Size :: int

record os_FileInfo =
  fi_Name :: string
  fi_IsDir :: bool
  fi_ModTime :: Time
  fi_Size :: int

text \<open>
  The primitives the repository calls, over a state \<open>'x\<close> of the outside world (local disk,
  WebDAV server, clock). A primitive that only reads takes the state; one that may write
  returns the new state with its error. The fields are, in order: the methods of the
  \<^verbatim>\<open>gowebdav\<close> client; the functions of \<^verbatim>\<open>os\<close> and \<^verbatim>\<open>io\<close> (an open file is named by its
  path; \<open>io_Copy\<close> copies a stream, given by the bytes the server holds, into it);
  the pure functions of \<^verbatim>\<open>path/filepath\<close>; \<^verbatim>\<open>filepath.Walk\<close>, given by the sequence of
  \<^verbatim>\<open>(path, err)\<close> pairs it passes to its callback while the callback returns \<^verbatim>\<open>nil\<close>;
  and \<^verbatim>\<open>time.Sleep\<close>.
\<close>

record 'x env =
  dav_ReadDir :: "string \<Rightarrow> 'x \<Rightarrow> error + os_FileInfo list"
  dav_Stat :: "string \<Rightarrow> 'x \<Rightarrow> error + os_FileInfo"
  dav_ReadStream :: "string \<Rightarrow> 'x \<Rightarrow> error + byte list"
  dav_WriteStream :: "string \<Rightarrow> byte list \<Rightarrow> 'x \<Rightarrow> error option \<times> 'x"
  dav_Mkdir :: "string \<Rightarrow> 'x \<Rightarrow> error option \<times> 'x"
  dav_Remove :: "string \<Rightarrow> 'x \<Rightarrow> error option \<times> 'x"
  os_Stat :: "string \<Rightarrow> 'x \<Rightarrow> error + os_FileInfo"
  os_ReadDir :: "string \<Rightarrow> 'x \<Rightarrow> error + os_FileInfo list"
  os_MkdirAll :: "string \<Rightarrow> 'x \<Rightarrow> error option \<times> 'x"
  os_Create :: "string \<Rightarrow> 'x \<Rightarrow> error option \<times> 'x"
  os_Open :: "string \<Rightarrow> 'x \<Rightarrow> error + byte list"
  io_Copy :: "string \<Rightarrow> byte list \<Rightarrow> 'x \<Rightarrow> error option \<times> 'x"
  file_Close :: "string \<Rightarrow> 'x \<Rightarrow> error option \<times> 'x"
  os_Rename :: "string \<Rightarrow> string \<Rightarrow> 'x \<Rightarrow> error option \<times> 'x"
  os_Chtimes :: "string \<Rightarrow> Time \<Rightarrow> 'x \<Rightarrow> error option \<times> 'x"
  os_Remove :: "string \<Rightarrow> 'x \<Rightarrow> error option \<times> 'x"
  os_RemoveAll :: "string \<Rightarrow> 'x \<Rightarrow> error option \<times> 'x"
  fp_Join :: "string \<Rightarrow> string \<Rightarrow> string"
  fp_Dir :: "string \<Rightarrow> string"
  fp_Base :: "string \<Rightarrow> string"
  fp_Rel :: "string \<Rightarrow> string \<Rightarrow> error + string"
  fp_ToSlash :: "string \<Rightarrow> string"
  fp_Walk :: "string \<Rightarrow> 'x \<Rightarrow> (string \<times> error option) list"
  time_Sleep :: "Duration \<Rightarrow> 'x \<Rightarrow> 'x"

subsection \<open>pkg/client: the WebDAV client wrapper\<close>

text \<open>\<^verbatim>\<open>err.Error()\<close>; the texts of the repository's own wrappers are abbreviated.\<close>

fun Error :: "error \<Rightarrow> string" where
  "Error (Err m) = m"
| "Error (Wrapf tag e) = tag @ '': '' @ Error e"
| "Error (RetryFailed n None) = ''retry failed: <nil>''"
| "Error (RetryFailed n (Some e)) = ''retry failed: '' @ Error e"
| "Error (SyncErrors k e) = ''sync errors, first: '' @ Error e"
| "Error (UnknownMode m) = ''unknown sync mode: '' @ m"

text \<open>\<^verbatim>\<open>strings.Contains\<close>, \<^verbatim>\<open>strings.TrimPrefix\<close> and \<^verbatim>\<open>strings.Split\<close> on \<^verbatim>\<open>"/"\<close>.\<close>

fun Contains :: "string \<Rightarrow> string \<Rightarrow> bool" where
  "Contains [] sub = (sub = [])"
| "Contains (c # s) sub = (prefix sub (c # s) \<or> Contains s sub)"

definition TrimPrefix :: "string \<Rightarrow> string \<Rightarrow> string" where
  "TrimPrefix s pre = (if prefix pre s then drop (length pre) s else s)"

fun Split_slash :: "string \<Rightarrow> string list" where
  "Split_slash [] = [[]]"
| "Split_slash (c # s) =
     (if c = CHR ''/'' then [] # Split_slash s
      else (case Split_slash s of [] \<Rightarrow> [[c]] | part # parts \<Rightarrow> (c # part) # parts))"

text \<open>
  \<^verbatim>\<open>listRemoteFiles\<close>: the path is made to start with a slash, the root becomes the empty
  string, and each entry's path is the directory, a slash unless the directory is empty or
  ends with one, and the entry's name.
\<close>

definition listRemoteFiles :: "'x env \<Rightarrow> string \<Rightarrow> 'x \<Rightarrow> error + FileInfo list" where
  "listRemoteFiles env remotePath x =
     (let remotePath1 = (if \<not> prefix ''/'' remotePath then ''/'' @ remotePath else remotePath);
          remotePath2 = (if remotePath1 = ''/'' then [] else remotePath1)
      in case dav_ReadDir env remotePath2 x of
           Inl e \<Rightarrow> Inl (Wrapf ''read dir failed'' e)
         | Inr files \<Rightarrow>
             Inr (map (\<lambda>file.
                    \<lparr>Path = (if remotePath2 \<noteq> [] \<and> \<not> suffix ''/'' remotePath2
                              then remotePath2 @ ''/'' else remotePath2) @ fi_Name file,
                     IsDir = fi_IsDir file,
                     LastModified = fi_ModTime file,
                     Size = fi_Size file\<rparr>) files))"

text \<open>\<^verbatim>\<open>ListFiles\<close> drops the entries whose base name is \<^verbatim>\<open>.\<close> or \<^verbatim>\<open>..\<close>.\<close>

definition ListFiles :: "'x env \<Rightarrow> string \<Rightarrow> 'x \<Rightarrow> error + FileInfo list" where
  "ListFiles env remotePath x =
     (case listRemoteFiles env remotePath x of
        Inl e \<Rightarrow> Inl e
      | Inr files \<Rightarrow>
          Inr (filter (\<lambda>file. \<not> (fp_Base env (Path file) = ''.'' \<or> fp_Base env (Path file) = ''..''))
                 files))"

text \<open>
  \<^verbatim>\<open>FileExists\<close>: a failing \<^verbatim>\<open>Stat\<close> whose message contains \<^verbatim>\<open>404\<close> or
  \<^verbatim>\<open>not found\<close> means "absent"; any other failure is an error.
\<close>

definition FileExists :: "'x env \<Rightarrow> string \<Rightarrow> 'x \<Rightarrow> error + bool" where
  "FileExists env remotePath x =
     (case dav_Stat env remotePath x of
        Inl e \<Rightarrow> if Contains (Error e) ''404'' \<or> Contains (Error e) ''not found''
                 then Inr False else Inl e
      | Inr info \<Rightarrow> Inr True)"

text \<open>
  \<^verbatim>\<open>MakeDir\<close> creates each prefix of the path in turn; a failing \<^verbatim>\<open>Mkdir\<close> is ignored
  when the path then turns out to be a directory.
\<close>

fun MakeDir_parts :: "'x env \<Rightarrow> string \<Rightarrow> string list \<Rightarrow> 'x \<Rightarrow> error option \<times> 'x" where
  "MakeDir_parts env current [] x = (None, x)"
| "MakeDir_parts env current (part # parts) x =
     (let current1 = (if current \<noteq> [] then current @ ''/'' else current) @ part
      in case dav_Mkdir env current1 x of
           (None, x1) \<Rightarrow> MakeDir_parts env current1 parts x1
         | (Some err, x1) \<Rightarrow>
             (case dav_Stat env current1 x1 of
                Inl statErr \<Rightarrow> (Some (Wrapf ''create directory failed'' err), x1)
              | Inr info \<Rightarrow>
                  if \<not> fi_IsDir info then (Some (Wrapf ''create directory failed'' err), x1)
                  else MakeDir_parts env current1 parts x1))"

definition MakeDir :: "'x env \<Rightarrow> string \<Rightarrow> 'x \<Rightarrow> error option \<times> 'x" where
  "MakeDir env remotePath x =
     (let remotePath1 = TrimPrefix remotePath ''/''
      in if remotePath1 = [] then (None, x)
         else MakeDir_parts env [] (Split_slash remotePath1) x)"

text \<open>
  \<^verbatim>\<open>DownloadFile\<close> (and \<^verbatim>\<open>DownloadFileWithProgress\<close>, which differs by the progress
  callback only). The deferred function closes the file and, when the variable \<^verbatim>\<open>err\<close> is
  not \<^verbatim>\<open>nil\<close>, removes the temporary file; both results are discarded. It is registered
  after \<^verbatim>\<open>os.Create\<close> succeeded. The last statement returns the result of \<^verbatim>\<open>os.Chtimes\<close>
  without assigning \<^verbatim>\<open>err\<close>, so nothing is removed then.
\<close>

definition DownloadFile_cleanup :: "'x env \<Rightarrow> string \<Rightarrow> 'x \<Rightarrow> 'x" where
  "DownloadFile_cleanup env tmpFile x =
     snd (os_Remove env tmpFile (snd (file_Close env tmpFile x)))"

definition DownloadFile ::
  "'x env \<Rightarrow> string \<Rightarrow> string \<Rightarrow> Time \<Rightarrow> 'x \<Rightarrow> error option \<times> 'x" where
  "DownloadFile env remotePath localPath remoteModTime x =
     (case dav_Stat env remotePath x of
        Inl e \<Rightarrow> (Some (Wrapf ''stat remote file failed'' e), x)
      | Inr fileInfo \<Rightarrow>
     (case dav_ReadStream env remotePath x of
        Inl e \<Rightarrow> (Some (Wrapf ''read remote file failed'' e), x)
      | Inr reader \<Rightarrow>
     (let tmpFile = localPath @ ''.download''
      in case os_Create env tmpFile x of
        (Some e, x1) \<Rightarrow> (Some e, x1)
      | (None, x1) \<Rightarrow>
     (case io_Copy env tmpFile reader x1 of
        (Some e, x2) \<Rightarrow> (Some e, DownloadFile_cleanup env tmpFile x2)
      | (None, x2) \<Rightarrow>
     (case file_Close env tmpFile x2 of
        (Some e, x3) \<Rightarrow> (Some e, DownloadFile_cleanup env tmpFile x3)
      | (None, x3) \<Rightarrow>
     (case os_Rename env tmpFile localPath x3 of
        (Some e, x4) \<Rightarrow> (Some e, DownloadFile_cleanup env tmpFile x4)
      | (None, x4) \<Rightarrow>
     (case os_Chtimes env localPath remoteModTime x4 of
        (r, x5) \<Rightarrow> (r, snd (file_Close env tmpFile x5)))))))))"

text \<open>
  \<^verbatim>\<open>UploadFile\<close> (and \<^verbatim>\<open>UploadFileWithProgress\<close>). The parameter \<^verbatim>\<open>localModTime\<close>
  is not used by the body.
\<close>

definition UploadFile ::
  "'x env \<Rightarrow> string \<Rightarrow> string \<Rightarrow> Time \<Rightarrow> 'x \<Rightarrow> error option \<times> 'x" where
  "UploadFile env localPath remotePath localModTime x =
     (case os_Stat env localPath x of
        Inl e \<Rightarrow> (Some (Wrapf ''stat local file failed'' e), x)
      | Inr fileInfo \<Rightarrow>
     (case os_Open env localPath x of
        Inl e \<Rightarrow> (Some (Wrapf ''open local file failed'' e), x)
      | Inr file \<Rightarrow>
     (let remoteDir = fp_Dir env remotePath
      in case (if remoteDir \<noteq> ''.'' \<and> remoteDir \<noteq> ''/'' then MakeDir env remoteDir x
               else (None, x)) of
        (Some e, x1) \<Rightarrow> (Some (Wrapf ''create remote directory failed'' e), x1)
      | (None, x1) \<Rightarrow>
     (case dav_WriteStream env remotePath file x1 of
        (Some e, x2) \<Rightarrow> (Some (Wrapf ''upload failed'' e), x2)
      | (None, x2) \<Rightarrow> (None, x2)))))"

subsection \<open>pkg/sync: deciding whether a file is transferred\<close>

definition Second :: int where
  "Second = 1000000000"

text \<open>
  The condition under which both \<^verbatim>\<open>SyncFile\<close> and \<^verbatim>\<open>syncLocalFileToWebDAV\<close> skip a file:
  \<^verbatim>\<open>localModTime.Add(time.Second).After(remoteModTime) &&
  localModTime.Add(-time.Second).Before(remoteModTime)\<close>.
\<close>

definition withinOneSecond :: "Time \<Rightarrow> Time \<Rightarrow> bool" where
  "withinOneSecond localModTime remoteModTime =
     (localModTime + Second > remoteModTime \<and> localModTime - Second < remoteModTime)"

text \<open>
  The value of \<^verbatim>\<open>needsDownload\<close> in \<^verbatim>\<open>SyncFile\<close>, from the result of \<^verbatim>\<open>os.Stat\<close> on the
  local path: it starts as \<^verbatim>\<open>true\<close> and is cleared only when the stat succeeded and the
  condition above holds.
\<close>

definition needsDownload :: "error + os_FileInfo \<Rightarrow> FileInfo \<Rightarrow> bool" where
  "needsDownload stat file =
     (case stat of
        Inl err \<Rightarrow> True
      | Inr info \<Rightarrow> \<not> withinOneSecond (fi_ModTime info) (LastModified file))"

definition SyncFile :: "'x env \<Rightarrow> Config \<Rightarrow> FileInfo \<Rightarrow> 'x \<Rightarrow> error option \<times> 'x" where
  "SyncFile env cfg file x =
     (let localPath = fp_Join env (LocalDir cfg) (Path file)
      in if needsDownload (os_Stat env localPath x) file then
           (case os_MkdirAll env (fp_Dir env localPath) x of
              (Some e, x1) \<Rightarrow> (Some (Wrapf ''create directory failed'' e), x1)
            | (None, x1) \<Rightarrow>
                (case Retry (MaxRetries cfg) (RetryDelay cfg)
                        (DownloadFile env (Path file) localPath (LastModified file))
                        (time_Sleep env) x1 of
                   (err, x2, evs) \<Rightarrow> (err, x2)))
         else (None, x))"

text \<open>
  The value of \<^verbatim>\<open>needsUpload\<close> in \<^verbatim>\<open>syncLocalFileToWebDAV\<close>: \<^verbatim>\<open>true\<close> when the remote
  path does not exist; otherwise the loop over the listing of the remote directory stops at
  the first entry with the same base name and compares the times; without such an entry
  the value stays \<^verbatim>\<open>true\<close>.
\<close>

fun needsUpload_scan :: "(string \<Rightarrow> string) \<Rightarrow> Time \<Rightarrow> string \<Rightarrow> FileInfo list \<Rightarrow> bool" where
  "needsUpload_scan base localModTime remotePath [] = True"
| "needsUpload_scan base localModTime remotePath (remoteFile # remoteFiles) =
     (if base (Path remoteFile) = base remotePath
      then \<not> withinOneSecond localModTime (LastModified remoteFile)
      else needsUpload_scan base localModTime remotePath remoteFiles)"

definition needsUpload ::
  "(string \<Rightarrow> string) \<Rightarrow> os_FileInfo \<Rightarrow> string \<Rightarrow> bool \<Rightarrow> FileInfo list \<Rightarrow> bool" where
  "needsUpload base localInfo remotePath exists remoteFiles =
     (if exists then needsUpload_scan base (fi_ModTime localInfo) remotePath remoteFiles
      else True)"

definition syncLocalFileToWebDAV ::
  "'x env \<Rightarrow> Config \<Rightarrow> string \<Rightarrow> string \<Rightarrow> 'x \<Rightarrow> error option \<times> 'x" where
  "syncLocalFileToWebDAV env cfg relPath remotePath x =
     (let localPath = fp_Join env (LocalDir cfg) relPath
      in case os_Stat env localPath x of
           Inl e \<Rightarrow> (Some (Wrapf ''stat local file failed'' e), x)
         | Inr localInfo \<Rightarrow>
        (case FileExists env remotePath x of
           Inl e \<Rightarrow> (Some (Wrapf ''check remote file failed'' e), x)
         | Inr exists \<Rightarrow>
        (case (if exists then ListFiles env (fp_Dir env remotePath) x else Inr []) of
           Inl e \<Rightarrow> (Some (Wrapf ''list remote directory failed'' e), x)
         | Inr remoteFiles \<Rightarrow>
             if needsUpload (fp_Base env) localInfo remotePath exists remoteFiles then
               (case Retry (MaxRetries cfg) (RetryDelay cfg)
                       (UploadFile env localPath remotePath (fi_ModTime localInfo))
                       (time_Sleep env) x of
                  (err, x1, evs) \<Rightarrow> (err, x1))
             else (None, x))))"

subsection \<open>pkg/sync: walking the trees\<close>

text \<open>
  \<^verbatim>\<open>SyncDirectory\<close> lists a remote directory, sorts the directories and then the regular
  files by path, and starts one goroutine per entry; the errors the goroutines send are
  counted and the first one received is reported. The model runs the tasks one after the
  other in the order they are started, which is one of the schedules of the source; which
  error is received first depends on the schedule, whether there is one does not.
  The semaphore is not modelled. The recursion follows what the server lists, so the
  function takes the number of directory levels it may descend and returns \<open>None\<close> when
  that is not enough.
\<close>

fun SyncDirectory ::
    "nat \<Rightarrow> 'x env \<Rightarrow> Config \<Rightarrow> string \<Rightarrow> 'x \<Rightarrow> (error option \<times> 'x) option"
  and SyncDirectory_tasks ::
    "nat \<Rightarrow> 'x env \<Rightarrow> Config \<Rightarrow> FileInfo list \<Rightarrow> 'x \<Rightarrow> (error list \<times> 'x) option" where
  "SyncDirectory 0 env cfg remotePath x = None"
| "SyncDirectory (Suc n) env cfg remotePath x =
     (case ListFiles env remotePath x of
        Inl e \<Rightarrow> Some (Some (Wrapf ''list remote files failed'' e), x)
      | Inr remoteFiles \<Rightarrow>
          (let directories = sort_key Path (filter IsDir remoteFiles);
               regularFiles = sort_key Path (filter (\<lambda>file. \<not> IsDir file) remoteFiles);
               sortedFiles = directories @ regularFiles
           in case SyncDirectory_tasks n env cfg sortedFiles x of
                None \<Rightarrow> None
              | Some (syncErrors, x1) \<Rightarrow>
                  if length syncErrors > 0
                  then Some (Some (SyncErrors (length syncErrors) (hd syncErrors)), x1)
                  else Some (None, x1)))"
| "SyncDirectory_tasks n env cfg [] x = Some ([], x)"
| "SyncDirectory_tasks n env cfg (file # files) x =
     (case (if IsDir file then
              (case os_MkdirAll env (fp_Join env (LocalDir cfg) (Path file)) x of
                 (Some e, x1) \<Rightarrow> Some (Some (Wrapf ''create local directory failed'' e), x1)
               | (None, x1) \<Rightarrow> SyncDirectory n env cfg (Path file) x1)
            else Some (SyncFile env cfg file x)) of
        None \<Rightarrow> None
      | Some (err, x1) \<Rightarrow>
          (case SyncDirectory_tasks n env cfg files x1 of
             None \<Rightarrow> None
           | Some (errs, x2) \<Rightarrow> Some ((case err of None \<Rightarrow> [] | Some e \<Rightarrow> [e]) @ errs, x2)))"

text \<open>\<^verbatim>\<open>syncLocalToWebDAV\<close>, the same walk over the local tree.\<close>

fun syncLocalToWebDAV ::
    "nat \<Rightarrow> 'x env \<Rightarrow> Config \<Rightarrow> string \<Rightarrow> 'x \<Rightarrow> (error option \<times> 'x) option"
  and syncLocalToWebDAV_tasks ::
    "nat \<Rightarrow> 'x env \<Rightarrow> Config \<Rightarrow> string \<Rightarrow> os_FileInfo list \<Rightarrow> 'x \<Rightarrow> (error list \<times> 'x) option" where
  "syncLocalToWebDAV 0 env cfg relativePath x = None"
| "syncLocalToWebDAV (Suc n) env cfg relativePath x =
     (let localPath = fp_Join env (LocalDir cfg) relativePath
      in case os_ReadDir env localPath x of
           Inl e \<Rightarrow> Some (Some (Wrapf ''read local directory failed'' e), x)
         | Inr entries \<Rightarrow>
             (let directories = sort_key fi_Name (filter fi_IsDir entries);
                  regularFiles = sort_key fi_Name (filter (\<lambda>entry. \<not> fi_IsDir entry) entries);
                  sortedEntries = directories @ regularFiles
              in case syncLocalToWebDAV_tasks n env cfg relativePath sortedEntries x of
                   None \<Rightarrow> None
                 | Some (syncErrors, x1) \<Rightarrow>
                     if length syncErrors > 0
                     then Some (Some (SyncErrors (length syncErrors) (hd syncErrors)), x1)
                     else Some (None, x1)))"
| "syncLocalToWebDAV_tasks n env cfg relativePath [] x = Some ([], x)"
| "syncLocalToWebDAV_tasks n env cfg relativePath (entry # entries) x =
     (let entryRelPath = fp_Join env relativePath (fi_Name entry);
          remotePath = fp_ToSlash env (if entryRelPath = ''.'' then ''/'' else entryRelPath)
      in case (if fi_IsDir entry then
                 (case FileExists env remotePath x of
                    Inl e \<Rightarrow> Some (Some (Wrapf ''check remote directory failed'' e), x)
                  | Inr exists \<Rightarrow>
                      (case (if \<not> exists then MakeDir env remotePath x else (None, x)) of
                         (Some e, x1) \<Rightarrow> Some (Some (Wrapf ''create remote directory failed'' e), x1)
                       | (None, x1) \<Rightarrow> syncLocalToWebDAV n env cfg entryRelPath x1))
               else Some (syncLocalFileToWebDAV env cfg entryRelPath remotePath x)) of
           None \<Rightarrow> None
         | Some (err, x1) \<Rightarrow>
             (case syncLocalToWebDAV_tasks n env cfg relativePath entries x1 of
                None \<Rightarrow> None
              | Some (errs, x2) \<Rightarrow> Some ((case err of None \<Rightarrow> [] | Some e \<Rightarrow> [e]) @ errs, x2)))"

subsection \<open>pkg/sync: enumerating the trees and reconciling deletions\<close>

text \<open>
  \<^verbatim>\<open>buildLocalFileList\<close>: the callback given to \<^verbatim>\<open>filepath.Walk\<close> returns the error it is
  passed, skips the root, and appends the slash form of the path relative to the root.
  The function returns the list built so far together with the error.
\<close>

fun buildLocalFileList_walk ::
  "'x env \<Rightarrow> string \<Rightarrow> (string \<times> error option) list \<Rightarrow> string list \<Rightarrow> string list \<times> error option" where
  "buildLocalFileList_walk env baseDir [] files = (files, None)"
| "buildLocalFileList_walk env baseDir ((path, err) # visits) files =
     (case err of
        Some e \<Rightarrow> (files, Some e)
      | None \<Rightarrow>
          if path = baseDir then buildLocalFileList_walk env baseDir visits files
          else (case fp_Rel env baseDir path of
                  Inl e \<Rightarrow> (files, Some e)
                | Inr relPath \<Rightarrow>
                    buildLocalFileList_walk env baseDir visits (files @ [fp_ToSlash env relPath])))"

definition buildLocalFileList :: "'x env \<Rightarrow> Config \<Rightarrow> 'x \<Rightarrow> string list \<times> error option" where
  "buildLocalFileList env cfg x =
     buildLocalFileList_walk env (LocalDir cfg) (fp_Walk env (LocalDir cfg) x) []"

text \<open>
  \<^verbatim>\<open>buildRemoteFileList\<close>: the path of the directory itself unless it is the root, then
  for each entry its path and, for a directory, the list of the recursive call. As for
  \<^verbatim>\<open>SyncDirectory\<close> the first argument bounds the depth.
\<close>

fun buildRemoteFileList ::
    "nat \<Rightarrow> 'x env \<Rightarrow> string \<Rightarrow> 'x \<Rightarrow> (error + string list) option"
  and buildRemoteFileList_entries ::
    "nat \<Rightarrow> 'x env \<Rightarrow> FileInfo list \<Rightarrow> 'x \<Rightarrow> (error + string list) option" where
  "buildRemoteFileList 0 env remotePath x = None"
| "buildRemoteFileList (Suc n) env remotePath x =
     (case ListFiles env remotePath x of
        Inl e \<Rightarrow> Some (Inl e)
      | Inr entries \<Rightarrow>
          (case buildRemoteFileList_entries n env entries x of
             None \<Rightarrow> None
           | Some (Inl e) \<Rightarrow> Some (Inl e)
           | Some (Inr files) \<Rightarrow>
               Some (Inr ((if remotePath \<noteq> ''/'' \<and> remotePath \<noteq> [] then [remotePath] else [])
                          @ files))))"
| "buildRemoteFileList_entries n env [] x = Some (Inr [])"
| "buildRemoteFileList_entries n env (entry # entries) x =
     (case (if IsDir entry then buildRemoteFileList n env (Path entry) x else Some (Inr [])) of
        None \<Rightarrow> None
      | Some (Inl e) \<Rightarrow> Some (Inl e)
      | Some (Inr subFiles) \<Rightarrow>
          (case buildRemoteFileList_entries n env entries x of
             None \<Rightarrow> None
           | Some (Inl e) \<Rightarrow> Some (Inl e)
           | Some (Inr files) \<Rightarrow> Some (Inr (Path entry # subFiles @ files))))"

text \<open>
  \<^verbatim>\<open>findExtraFiles(source, target)\<close>: a \<^verbatim>\<open>map[string]bool\<close> is filled from \<^verbatim>\<open>target\<close>
  (a missing key reads as \<^verbatim>\<open>false\<close>), then \<^verbatim>\<open>source\<close> is filtered in order.
\<close>

definition findExtraFiles :: "string list \<Rightarrow> string list \<Rightarrow> string list" where
  "findExtraFiles source target =
     (let targetMap = fold (\<lambda>file m. m(file := True)) target (\<lambda>file. False)
      in filter (\<lambda>file. \<not> targetMap file) source)"

text \<open>
  \<^verbatim>\<open>sort.Slice(filesToDelete, func(i, j int) bool { return len(filesToDelete[i]) >
  len(filesToDelete[j]) })\<close>. The library sort is not stable: what it guarantees is
  \<open>sort_Slice_result\<close>, a permutation in which no later element is less than an earlier
  one. \<open>sortByLengthDesc\<close> is the sort the model runs, one such result.
\<close>

definition sort_Slice_result :: "('a \<Rightarrow> 'a \<Rightarrow> bool) \<Rightarrow> 'a list \<Rightarrow> 'a list \<Rightarrow> bool" where
  "sort_Slice_result lt xs ys =
     (mset ys = mset xs \<and> sorted_wrt (\<lambda>a b. \<not> lt b a) ys)"

definition longer :: "string \<Rightarrow> string \<Rightarrow> bool" where
  "longer a b = (length a > length b)"

definition sortByLengthDesc :: "string list \<Rightarrow> string list" where
  "sortByLengthDesc filesToDelete = sort_key (\<lambda>filePath. - int (length filePath)) filesToDelete"

text \<open>
  The two directions. Besides the error and the final state the model returns the phases
  the run went through, in order: the enumerations, the main pass and each deletion.
\<close>

datatype phase =
    EnumerateRemote
  | EnumerateLocal
  | MainPass
  | DeleteLocal string
  | DeleteRemote string

definition RestoreFromWebDAV ::
  "nat \<Rightarrow> 'x env \<Rightarrow> Config \<Rightarrow> 'x \<Rightarrow> (error option \<times> 'x \<times> phase list) option" where
  "RestoreFromWebDAV fuel env cfg x =
     (case buildRemoteFileList fuel env ''/'' x of
        None \<Rightarrow> None
      | Some (Inl e) \<Rightarrow> Some (Some (Wrapf ''list WebDAV files failed'' e), x, [EnumerateRemote])
      | Some (Inr remoteFiles) \<Rightarrow>
     (case SyncDirectory fuel env cfg ''/'' x of
        None \<Rightarrow> None
      | Some (err, x1) \<Rightarrow>
          if SyncDelete cfg \<and> err = None then
            (case buildLocalFileList env cfg x1 of
               (localFiles, Some e) \<Rightarrow>
                 Some (Some (Wrapf ''list local files failed'' e), x1,
                       [EnumerateRemote, MainPass, EnumerateLocal])
             | (localFiles, None) \<Rightarrow>
                 (let filesToDelete = sortByLengthDesc (findExtraFiles localFiles remoteFiles);
                      x2 = fold (\<lambda>filePath x.
                                   snd (os_RemoveAll env (fp_Join env (LocalDir cfg) filePath) x))
                             filesToDelete x1
                  in Some (err, x2,
                           [EnumerateRemote, MainPass, EnumerateLocal]
                           @ map (\<lambda>filePath. DeleteLocal (fp_Join env (LocalDir cfg) filePath))
                               filesToDelete)))
          else Some (err, x1, [EnumerateRemote, MainPass])))"

definition BackupToWebDAV ::
  "nat \<Rightarrow> 'x env \<Rightarrow> Config \<Rightarrow> 'x \<Rightarrow> (error option \<times> 'x \<times> phase list) option" where
  "BackupToWebDAV fuel env cfg x =
     (case buildLocalFileList env cfg x of
        (localFiles, Some e) \<Rightarrow>
          Some (Some (Wrapf ''list local files failed'' e), x, [EnumerateLocal])
      | (localFiles, None) \<Rightarrow>
     (case syncLocalToWebDAV fuel env cfg ''/'' x of
        None \<Rightarrow> None
      | Some (err, x1) \<Rightarrow>
          if SyncDelete cfg \<and> err = None then
            (case buildRemoteFileList fuel env ''/'' x1 of
               None \<Rightarrow> None
             | Some (Inl e) \<Rightarrow>
                 Some (Some (Wrapf ''list WebDAV files failed'' e), x1,
                       [EnumerateLocal, MainPass, EnumerateRemote])
             | Some (Inr remoteFiles) \<Rightarrow>
                 (let filesToDelete = sortByLengthDesc (findExtraFiles remoteFiles localFiles);
                      x2 = fold (\<lambda>filePath x. snd (dav_Remove env filePath x)) filesToDelete x1
                  in Some (err, x2,
                           [EnumerateLocal, MainPass, EnumerateRemote]
                           @ map DeleteRemote filesToDelete)))
          else Some (err, x1, [EnumerateLocal, MainPass])))"

text \<open>
  \<^verbatim>\<open>
  func (s *SyncManager) StartSync() error {
      switch s.config.GetSyncMode() {
      case config.BackupMode:  return s.BackupToWebDAV()
      case config.RestoreMode: return s.RestoreFromWebDAV()
      default:                 return fmt.Errorf("...: %s", s.config.Mode)
      }
  }
  \<close>
\<close>

definition StartSync ::
  "nat \<Rightarrow> 'x env \<Rightarrow> Config \<Rightarrow> 'x \<Rightarrow> (error option \<times> 'x \<times> phase list) option" where
  "StartSync fuel env cfg x =
     (if GetSyncMode cfg = BackupMode then BackupToWebDAV fuel env cfg x
      else if GetSyncMode cfg = RestoreMode then RestoreFromWebDAV fuel env cfg x
      else Some (Some (UnknownMode (Mode cfg)), x, []))"

text \<open>Reading the result of a run; \<open>returns\<close> says that the depth bound was enough.\<close>

definition returns :: "'a option \<Rightarrow> bool" where
  "returns run = (case run of None \<Rightarrow> False | Some result \<Rightarrow> True)"

definition error_of :: "(error option \<times> 'x \<times> phase list) option \<Rightarrow> error option" where
  "error_of run = (case run of None \<Rightarrow> None | Some (err, x, ps) \<Rightarrow> err)"

definition state_of :: "(error option \<times> 'x \<times> phase list) option \<Rightarrow> 'x option" where
  "state_of run = (case run of None \<Rightarrow> None | Some (err, x, ps) \<Rightarrow> Some x)"

definition phases_of :: "(error option \<times> 'x \<times> phase list) option \<Rightarrow> phase list" where
  "phases_of run = (case run of None \<Rightarrow> [] | Some (err, x, ps) \<Rightarrow> ps)"

text \<open>
  A reading of the phases, in the words of the specification: \<open>enumerations_before_pass\<close>
  says that no tree is enumerated once the main pass has begun.
\<close>

definition is_enumeration :: "phase \<Rightarrow> bool" where
  "is_enumeration p = (p = EnumerateRemote \<or> p = EnumerateLocal)"

definition enumerations_before_pass :: "phase list \<Rightarrow> bool" where
  "enumerations_before_pass ps =
     list_all (\<lambda>p. \<not> is_enumeration p) (dropWhile (\<lambda>p. p \<noteq> MainPass) ps)"

subsection \<open>pkg/sync: the tasks of a pass that fail\<close>

text \<open>
  What the specification calls a failed task of the main pass, spelt out for the pull over the
  remote directory \<open>remotePath\<close> from the state \<open>x\<close>, down to the given depth: the listing
  of the directory fails, or one of its tasks fails. The task of a directory fails when the
  local directory cannot be created or when the pass over that directory fails; the task of
  a regular file fails when \<open>SyncFile\<close> returns an error. Each task is looked at in the
  state in which the pass reaches it.
\<close>

fun pull_fails :: "nat \<Rightarrow> 'x env \<Rightarrow> Config \<Rightarrow> string \<Rightarrow> 'x \<Rightarrow> bool"
  and pull_tasks_fail :: "nat \<Rightarrow> 'x env \<Rightarrow> Config \<Rightarrow> FileInfo list \<Rightarrow> 'x \<Rightarrow> bool" where
  "pull_fails 0 env cfg remotePath x = False"
| "pull_fails (Suc n) env cfg remotePath x =
     (case ListFiles env remotePath x of
        Inl e \<Rightarrow> True
      | Inr remoteFiles \<Rightarrow>
          pull_tasks_fail n env cfg
            (sort_key Path (filter IsDir remoteFiles)
             @ sort_key Path (filter (\<lambda>file. \<not> IsDir file) remoteFiles)) x)"
| "pull_tasks_fail n env cfg [] x = False"
| "pull_tasks_fail n env cfg (file # files) x =
     (if IsDir file then
        (case os_MkdirAll env (fp_Join env (LocalDir cfg) (Path file)) x of
           (Some e, x1) \<Rightarrow> True
         | (None, x1) \<Rightarrow>
             pull_fails n env cfg (Path file) x1
             \<or> (case SyncDirectory n env cfg (Path file) x1 of
                   None \<Rightarrow> False
                 | Some (err, x2) \<Rightarrow> pull_tasks_fail n env cfg files x2))
      else (case SyncFile env cfg file x of
              (Some e, x1) \<Rightarrow> True
            | (None, x1) \<Rightarrow> pull_tasks_fail n env cfg files x1))"

text \<open>
  The same for the push over the local directory \<open>relativePath\<close>: reading the directory
  fails, or one of its tasks fails. The task of a directory fails when the check for the
  remote directory or its creation fails, or when the pass over that directory fails; the
  task of a regular file fails when \<open>syncLocalFileToWebDAV\<close> returns an error.
\<close>

fun push_fails :: "nat \<Rightarrow> 'x env \<Rightarrow> Config \<Rightarrow> string \<Rightarrow> 'x \<Rightarrow> bool"
  and push_tasks_fail ::
    "nat \<Rightarrow> 'x env \<Rightarrow> Config \<Rightarrow> string \<Rightarrow> os_FileInfo list \<Rightarrow> 'x \<Rightarrow> bool" where
  "push_fails 0 env cfg relativePath x = False"
| "push_fails (Suc n) env cfg relativePath x =
     (case os_ReadDir env (fp_Join env (LocalDir cfg) relativePath) x of
        Inl e \<Rightarrow> True
      | Inr entries \<Rightarrow>
          push_tasks_fail n env cfg relativePath
            (sort_key fi_Name (filter fi_IsDir entries)
             @ sort_key fi_Name (filter (\<lambda>entry. \<not> fi_IsDir entry) entries)) x)"
| "push_tasks_fail n env cfg relativePath [] x = False"
| "push_tasks_fail n env cfg relativePath (entry # entries) x =
     (let entryRelPath = fp_Join env relativePath (fi_Name entry);
          remotePath = fp_ToSlash env (if entryRelPath = ''.'' then ''/'' else entryRelPath)
      in if fi_IsDir entry then
           (case FileExists env remotePath x of
              Inl e \<Rightarrow> True
            | Inr exists \<Rightarrow>
                (case (if \<not> exists then MakeDir env remotePath x else (None, x)) of
                   (Some e, x1) \<Rightarrow> True
                 | (None, x1) \<Rightarrow>
                     push_fails n env cfg entryRelPath x1
                     \<or> (case syncLocalToWebDAV n env cfg entryRelPath x1 of
                           None \<Rightarrow> False
                         | Some (err, x2) \<Rightarrow> push_tasks_fail n env cfg relativePath entries x2)))
         else (case syncLocalFileToWebDAV env cfg entryRelPath remotePath x of
                 (Some e, x1) \<Rightarrow> True
               | (None, x1) \<Rightarrow> push_tasks_fail n env cfg relativePath entries x1))"

subsection \<open>An in-memory world\<close>

text \<open>
  A small implementation of the primitives, used to run the functions above: the local disk
  and the server are association lists from paths to nodes, the server stamps what it stores
  with its clock, and \<open>faulty\<close> says which calls fail (a failing copy stops after \<open>cut\<close>
  bytes). Every call that writes is appended to \<open>journal\<close> when it is carried out. \<^verbatim>\<open>os.Remove\<close> is not subject to injected failures: it removes the entry when
  there is one. The path functions are those of \<^verbatim>\<open>path/filepath\<close> on a system whose
  separator is the slash, for paths without \<^verbatim>\<open>.\<close> and \<^verbatim>\<open>..\<close> elements.
\<close>

datatype call =
    DavReadDir string
  | DavStat string
  | DavReadStream string
  | DavWriteStream string
  | DavMkdir string
  | DavRemove string
  | OsStat string
  | OsReadDir string
  | OsMkdirAll string
  | OsCreate string
  | OsOpen string
  | IoCopy string
  | FileClose string
  | OsRename string string
  | OsChtimes string
  | OsRemove string
  | OsRemoveAll string

datatype node = File "byte list" Time | Directory

record mem =
  local_tree :: "(string \<times> node) list"
  remote_tree :: "(string \<times> node) list"
  clock :: Time
  faulty :: "call \<Rightarrow> bool"
  cut :: nat
  journal :: "call list"

fun squeeze :: "string \<Rightarrow> string" where
  "squeeze (c # d # s) =
     (if c = CHR ''/'' \<and> d = CHR ''/'' then squeeze (d # s) else c # squeeze (d # s))"
| "squeeze s = s"

definition Clean :: "string \<Rightarrow> string" where
  "Clean path =
     (let p = squeeze path;
          q = (if length p > 1 \<and> last p = CHR ''/'' then butlast p else p)
      in if q = [] then ''.'' else q)"

definition Join :: "string \<Rightarrow> string \<Rightarrow> string" where
  "Join a b =
     (if a = [] \<and> b = [] then []
      else if a = [] then Clean b
      else if b = [] then Clean a
      else Clean (a @ ''/'' @ b))"

definition Dir :: "string \<Rightarrow> string" where
  "Dir path = Clean (rev (dropWhile (\<lambda>c. c \<noteq> CHR ''/'') (rev path)))"

definition Base :: "string \<Rightarrow> string" where
  "Base path =
     (if path = [] then ''.''
      else (let p = rev (dropWhile (\<lambda>c. c = CHR ''/'') (rev path));
                q = rev (takeWhile (\<lambda>c. c \<noteq> CHR ''/'') (rev p))
            in if q = [] then ''/'' else q))"

definition Rel :: "string \<Rightarrow> string \<Rightarrow> error + string" where
  "Rel basepath targpath =
     (if targpath = basepath then Inr ''.''
      else if prefix (basepath @ ''/'') targpath then Inr (drop (length basepath + 1) targpath)
      else Inl (Err ''Rel: cannot make path relative''))"

definition info_of :: "string \<Rightarrow> node \<Rightarrow> os_FileInfo" where
  "info_of name nd =
     (case nd of
        File bytes t \<Rightarrow> \<lparr>fi_Name = name, fi_IsDir = False, fi_ModTime = t, fi_Size = int (length bytes)\<rparr>
      | Directory \<Rightarrow> \<lparr>fi_Name = name, fi_IsDir = True, fi_ModTime = 0, fi_Size = 0\<rparr>)"

definition children :: "string \<Rightarrow> (string \<times> node) list \<Rightarrow> os_FileInfo list" where
  "children dir tree =
     (let d = (if suffix ''/'' dir then dir else dir @ ''/'')
      in map (\<lambda>(k, nd). info_of (drop (length d) k) nd)
           (filter (\<lambda>(k, nd). prefix d k \<and> drop (length d) k \<noteq> []
                                \<and> CHR ''/'' \<notin> set (drop (length d) k)) tree))"

definition below :: "string \<Rightarrow> string \<Rightarrow> bool" where
  "below dir k = (k = dir \<or> prefix (dir @ ''/'') k)"

definition injected :: error where
  "injected = Err ''injected failure''"

definition dav_key :: "string \<Rightarrow> string" where
  "dav_key path =
     ''/'' @ rev (dropWhile (\<lambda>c. c = CHR ''/'') (rev (dropWhile (\<lambda>c. c = CHR ''/'') path)))"

definition lookup_remote :: "mem \<Rightarrow> string \<Rightarrow> node option" where
  "lookup_remote m path =
     (if dav_key path = ''/'' then Some Directory else map_of (remote_tree m) (dav_key path))"

definition mem_dav_Stat :: "string \<Rightarrow> mem \<Rightarrow> error + os_FileInfo" where
  "mem_dav_Stat path m =
     (if faulty m (DavStat path) then Inl injected
      else case lookup_remote m path of
             None \<Rightarrow> Inl (Err ''404 Not Found'')
           | Some nd \<Rightarrow> Inr (info_of (Base path) nd))"

definition mem_dav_ReadDir :: "string \<Rightarrow> mem \<Rightarrow> error + os_FileInfo list" where
  "mem_dav_ReadDir path m =
     (if faulty m (DavReadDir path) then Inl injected
      else case lookup_remote m path of
             Some Directory \<Rightarrow> Inr (children (dav_key path) (remote_tree m))
           | Some (File bytes t) \<Rightarrow> Inl (Err ''405 Method Not Allowed'')
           | None \<Rightarrow> Inl (Err ''404 Not Found''))"

definition mem_dav_ReadStream :: "string \<Rightarrow> mem \<Rightarrow> error + byte list" where
  "mem_dav_ReadStream path m =
     (if faulty m (DavReadStream path) then Inl injected
      else case lookup_remote m path of
             Some (File bytes t) \<Rightarrow> Inr bytes
           | Some Directory \<Rightarrow> Inl (Err ''405 Method Not Allowed'')
           | None \<Rightarrow> Inl (Err ''404 Not Found''))"

definition mem_dav_WriteStream :: "string \<Rightarrow> byte list \<Rightarrow> mem \<Rightarrow> error option \<times> mem" where
  "mem_dav_WriteStream path bytes m =
     (if faulty m (DavWriteStream path) then (Some injected, m)
      else (None, m\<lparr>remote_tree := AList.update (dav_key path) (File bytes (clock m)) (remote_tree m),
                 journal := journal m @ [DavWriteStream path]\<rparr>))"

definition mem_dav_Mkdir :: "string \<Rightarrow> mem \<Rightarrow> error option \<times> mem" where
  "mem_dav_Mkdir path m =
     (if faulty m (DavMkdir path) then (Some injected, m)
      else case lookup_remote m path of
             Some nd \<Rightarrow> (Some (Err ''405 Method Not Allowed''), m)
           | None \<Rightarrow> (None, m\<lparr>remote_tree := AList.update (dav_key path) Directory (remote_tree m),
                              journal := journal m @ [DavMkdir path]\<rparr>))"

definition mem_dav_Remove :: "string \<Rightarrow> mem \<Rightarrow> error option \<times> mem" where
  "mem_dav_Remove path m =
     (if faulty m (DavRemove path) then (Some injected, m)
      else case map_of (remote_tree m) (dav_key path) of
             None \<Rightarrow> (Some (Err ''404 Not Found''), m)
           | Some nd \<Rightarrow>
               (None, m\<lparr>remote_tree :=
                          filter (\<lambda>(k, nd). \<not> below (dav_key path) k) (remote_tree m),
                        journal := journal m @ [DavRemove path]\<rparr>))"

definition mem_os_Stat :: "string \<Rightarrow> mem \<Rightarrow> error + os_FileInfo" where
  "mem_os_Stat path m =
     (if faulty m (OsStat path) then Inl injected
      else case map_of (local_tree m) path of
             None \<Rightarrow> Inl (Err ''no such file or directory'')
           | Some nd \<Rightarrow> Inr (info_of (Base path) nd))"

definition mem_os_ReadDir :: "string \<Rightarrow> mem \<Rightarrow> error + os_FileInfo list" where
  "mem_os_ReadDir path m =
     (if faulty m (OsReadDir path) then Inl injected
      else case map_of (local_tree m) path of
             Some Directory \<Rightarrow> Inr (children path (local_tree m))
           | Some (File bytes t) \<Rightarrow> Inl (Err ''not a directory'')
           | None \<Rightarrow> Inl (Err ''no such file or directory''))"

definition mem_os_MkdirAll :: "string \<Rightarrow> mem \<Rightarrow> error option \<times> mem" where
  "mem_os_MkdirAll path m =
     (if faulty m (OsMkdirAll path) then (Some injected, m)
      else case map_of (local_tree m) path of
             Some Directory \<Rightarrow> (None, m)
           | Some (File bytes t) \<Rightarrow> (Some (Err ''not a directory''), m)
           | None \<Rightarrow> (None, m\<lparr>local_tree := AList.update path Directory (local_tree m),
                              journal := journal m @ [OsMkdirAll path]\<rparr>))"

definition mem_os_Create :: "string \<Rightarrow> mem \<Rightarrow> error option \<times> mem" where
  "mem_os_Create path m =
     (if faulty m (OsCreate path) then (Some injected, m)
      else (None, m\<lparr>local_tree := AList.update path (File [] (clock m)) (local_tree m),
                    journal := journal m @ [OsCreate path]\<rparr>))"

definition mem_os_Open :: "string \<Rightarrow> mem \<Rightarrow> error + byte list" where
  "mem_os_Open path m =
     (if faulty m (OsOpen path) then Inl injected
      else case map_of (local_tree m) path of
             Some (File bytes t) \<Rightarrow> Inr bytes
           | Some Directory \<Rightarrow> Inr []
           | None \<Rightarrow> Inl (Err ''no such file or directory''))"

definition mem_io_Copy :: "string \<Rightarrow> byte list \<Rightarrow> mem \<Rightarrow> error option \<times> mem" where
  "mem_io_Copy path bytes m =
     (if faulty m (IoCopy path)
      then (Some (Err ''unexpected EOF''),
            m\<lparr>local_tree := AList.update path (File (take (cut m) bytes) (clock m)) (local_tree m),
              journal := journal m @ [IoCopy path]\<rparr>)
      else (None, m\<lparr>local_tree := AList.update path (File bytes (clock m)) (local_tree m),
                    journal := journal m @ [IoCopy path]\<rparr>))"

definition mem_file_Close :: "string \<Rightarrow> mem \<Rightarrow> error option \<times> mem" where
  "mem_file_Close path m = (if faulty m (FileClose path) then (Some injected, m) else (None, m))"

definition mem_os_Rename :: "string \<Rightarrow> string \<Rightarrow> mem \<Rightarrow> error option \<times> mem" where
  "mem_os_Rename oldpath newpath m =
     (if faulty m (OsRename oldpath newpath) then (Some injected, m)
      else case map_of (local_tree m) oldpath of
             None \<Rightarrow> (Some (Err ''no such file or directory''), m)
           | Some nd \<Rightarrow>
               (None, m\<lparr>local_tree := AList.update newpath nd (AList.delete oldpath (local_tree m)),
                        journal := journal m @ [OsRename oldpath newpath]\<rparr>))"

definition mem_os_Chtimes :: "string \<Rightarrow> Time \<Rightarrow> mem \<Rightarrow> error option \<times> mem" where
  "mem_os_Chtimes path t m =
     (if faulty m (OsChtimes path) then (Some injected, m)
      else case map_of (local_tree m) path of
             None \<Rightarrow> (Some (Err ''no such file or directory''), m)
           | Some Directory \<Rightarrow> (None, m)
           | Some (File bytes t0) \<Rightarrow>
               (None, m\<lparr>local_tree := AList.update path (File bytes t) (local_tree m),
                        journal := journal m @ [OsChtimes path]\<rparr>))"

definition mem_os_Remove :: "string \<Rightarrow> mem \<Rightarrow> error option \<times> mem" where
  "mem_os_Remove path m =
     (case map_of (local_tree m) path of
        None \<Rightarrow> (Some (Err ''no such file or directory''), m)
      | Some nd \<Rightarrow> (None, m\<lparr>local_tree := AList.delete path (local_tree m),
                           journal := journal m @ [OsRemove path]\<rparr>))"

definition mem_os_RemoveAll :: "string \<Rightarrow> mem \<Rightarrow> error option \<times> mem" where
  "mem_os_RemoveAll path m =
     (if faulty m (OsRemoveAll path) then (Some injected, m)
      else (None, m\<lparr>local_tree := filter (\<lambda>(k, nd). \<not> below path k) (local_tree m),
                    journal := journal m @ [OsRemoveAll path]\<rparr>))"

definition mem_fp_Walk :: "string \<Rightarrow> mem \<Rightarrow> (string \<times> error option) list" where
  "mem_fp_Walk root m =
     (case map_of (local_tree m) root of
        None \<Rightarrow> [(root, Some (Err ''no such file or directory''))]
      | Some nd \<Rightarrow>
          (root, None) #
          map (\<lambda>(k, nd). (k, None)) (filter (\<lambda>(k, nd). prefix (root @ ''/'') k) (local_tree m)))"

definition mem_time_Sleep :: "Duration \<Rightarrow> mem \<Rightarrow> mem" where
  "mem_time_Sleep d m = m\<lparr>clock := clock m + max 0 (sint d)\<rparr>"

definition mem_env :: "mem env" where
  "mem_env =
     \<lparr>dav_ReadDir = mem_dav_ReadDir,
      dav_Stat = mem_dav_Stat,
      dav_ReadStream = mem_dav_ReadStream,
      dav_WriteStream = mem_dav_WriteStream,
      dav_Mkdir = mem_dav_Mkdir,
      dav_Remove = mem_dav_Remove,
      os_Stat = mem_os_Stat,
      os_ReadDir = mem_os_ReadDir,
      os_MkdirAll = mem_os_MkdirAll,
      os_Create = mem_os_Create,
      os_Open = mem_os_Open,
      io_Copy = mem_io_Copy,
      file_Close = mem_file_Close,
      os_Rename = mem_os_Rename,
      os_Chtimes = mem_os_Chtimes,
      os_Remove = mem_os_Remove,
      os_RemoveAll = mem_os_RemoveAll,
      fp_Join = Join,
      fp_Dir = Dir,
      fp_Base = Base,
      fp_Rel = Rel,
      fp_ToSlash = (\<lambda>path. path),
      fp_Walk = mem_fp_Walk,
      time_Sleep = mem_time_Sleep\<rparr>"

subsection \<open>Concrete inputs\<close>

text \<open>
  Inputs for \<open>Retry\<close>: the state is the number of invocations made and a clock in
  nanoseconds. One operation fails twice and then succeeds, the other always fails;
  sleeping advances the clock, and returns at once for a negative duration.
\<close>

definition flaky_clock :: "nat \<times> int \<Rightarrow> error option \<times> (nat \<times> int)" where
  "flaky_clock s = (if fst s < 2 then Some (Err ''timeout'') else None, (Suc (fst s), snd s))"

definition always_fails :: "nat \<times> int \<Rightarrow> error option \<times> (nat \<times> int)" where
  "always_fails s = (Some (Err ''timeout''), (Suc (fst s), snd s))"

definition tick :: "Duration \<Rightarrow> nat \<times> int \<Rightarrow> nat \<times> int" where
  "tick d s = (fst s, snd s + max 0 (sint d))"

text \<open>A configuration with the default retry settings and the local directory \<^verbatim>\<open>sync\<close>.\<close>

definition cfg0 :: Config where
  "cfg0 = \<lparr>LocalDir = ''sync'', Mode = ''restore'', SyncDelete = True, CompareContent = False,
            MaxConcurrent = 5, MaxRetries = 3, RetryDelay = 2000000000\<rparr>"

definition cfg_backup :: Config where
  "cfg_backup = cfg0\<lparr>Mode := ''backup''\<rparr>"

definition seconds :: "int \<Rightarrow> Time" where
  "seconds n = n * Second"

text \<open>
  A world for a push: one local file \<^verbatim>\<open>sync/a.txt\<close> last modified at second 100, an
  empty server whose clock shows second 1000, no failures.
\<close>

definition push_world :: mem where
  "push_world =
     \<lparr>local_tree = [(''sync'', Directory), (''sync/a.txt'', File [1, 2, 3] (seconds 100))],
      remote_tree = [],
      clock = seconds 1000,
      faulty = (\<lambda>c. False),
      cut = 0,
      journal = []\<rparr>"

text \<open>
  A world for a pull: the server holds the directory \<^verbatim>\<open>a\<close> with the file
  \<^verbatim>\<open>b.txt\<close> in it and the file \<^verbatim>\<open>x.txt\<close>; the local directory holds \<^verbatim>\<open>old.txt\<close>,
  which the server does not have. In \<open>pull_world_broken\<close> every copy of a stream into
  \<^verbatim>\<open>sync/x.txt.download\<close> fails after two bytes.
\<close>

definition pull_world :: mem where
  "pull_world =
     \<lparr>local_tree = [(''sync'', Directory), (''sync/old.txt'', File [9] (seconds 50))],
      remote_tree = [(''/a'', Directory), (''/a/b.txt'', File [4, 5] (seconds 200)),
                     (''/x.txt'', File [6, 7, 8] (seconds 300))],
      clock = seconds 1000,
      faulty = (\<lambda>c. False),
      cut = 0,
      journal = []\<rparr>"

definition pull_world_broken :: mem where
  "pull_world_broken =
     pull_world\<lparr>faulty := (\<lambda>c. c = IoCopy ''sync/x.txt.download''), cut := 2\<rparr>"

text \<open>
  The push world with the file \<^verbatim>\<open>old.txt\<close> on the server, which the local directory does
  not have, and with every upload to \<^verbatim>\<open>/a.txt\<close> failing.
\<close>

definition push_world_broken :: mem where
  "push_world_broken =
     push_world\<lparr>remote_tree := [(''/old.txt'', File [9] (seconds 50))],
                faulty := (\<lambda>c. c = DavWriteStream ''/a.txt'')\<rparr>"

text \<open>
  Worlds in which the transfer that fails is one level down: every copy of a stream into
  \<^verbatim>\<open>sync/a/b.txt.download\<close> fails; the local directory \<^verbatim>\<open>d\<close> holds the file
  \<^verbatim>\<open>e.txt\<close>, whose upload fails, and the server holds \<^verbatim>\<open>old.txt\<close>.
\<close>

definition pull_world_deep_broken :: mem where
  "pull_world_deep_broken =
     pull_world\<lparr>faulty := (\<lambda>c. c = IoCopy ''sync/a/b.txt.download''), cut := 1\<rparr>"

definition push_world_deep_broken :: mem where
  "push_world_deep_broken =
     \<lparr>local_tree = [(''sync'', Directory), (''sync/d'', Directory),
                     (''sync/d/e.txt'', File [1, 2] (seconds 100))],
      remote_tree = [(''/old.txt'', File [9] (seconds 50))],
      clock = seconds 1000,
      faulty = (\<lambda>c. c = DavWriteStream ''/d/e.txt''),
      cut = 0,
      journal = []\<rparr>"

text \<open>
  The broken pull world with an older \<^verbatim>\<open>sync/x.txt\<close> already on the local disk, and a
  world in which the local copy is exactly one second older than the file on the server.
\<close>

definition pull_world_stale :: mem where
  "pull_world_stale =
     pull_world_broken\<lparr>local_tree :=
        local_tree pull_world_broken @ [(''sync/x.txt'', File [0] (seconds 10))]\<rparr>"

definition one_second_world :: mem where
  "one_second_world =
     \<lparr>local_tree = [(''sync'', Directory), (''sync/x.txt'', File [6, 7, 8] (seconds 299))],
      remote_tree = [(''/x.txt'', File [6, 7, 8] (seconds 300))],
      clock = seconds 1000,
      faulty = (\<lambda>c. False),
      cut = 0,
      journal = []\<rparr>"

text \<open>
  A world in which the local copy carries the time of the file on the server, and the
  entries the server lists for \<^verbatim>\<open>x.txt\<close> and the local disk reports for it.
\<close>

definition in_sync_world :: mem where
  "in_sync_world =
     one_second_world\<lparr>local_tree :=
        [(''sync'', Directory), (''sync/x.txt'', File [6, 7, 8] (seconds 300))]\<rparr>"

definition remote_x :: FileInfo where
  "remote_x = \<lparr>Path = ''x.txt'', IsDir = False, LastModified = seconds 300, Size = 3\<rparr>"

definition local_x :: "Time \<Rightarrow> os_FileInfo" where
  "local_x t = \<lparr>fi_Name = ''x.txt'', fi_IsDir = False, fi_ModTime = t, fi_Size = 3\<rparr>"

text \<open>
  A world for a push with mirror deletion: the local directory is empty and the server holds
  the empty directory \<^verbatim>\<open>stale\<close>.
\<close>

definition stale_remote_world :: mem where
  "stale_remote_world =
     \<lparr>local_tree = [(''sync'', Directory)],
      remote_tree = [(''/stale'', Directory)],
      clock = seconds 1000,
      faulty = (\<lambda>c. False),
      cut = 0,
      journal = []\<rparr>"

text \<open>
  Two worlds for the order of deletions: the directory \<^verbatim>\<open>a\<close> holding the directory
  \<^verbatim>\<open>b\<close> holding the file \<^verbatim>\<open>c.txt\<close> exists only on the local disk, or only on the
  server.
\<close>

definition nested_local_world :: mem where
  "nested_local_world =
     \<lparr>local_tree = [(''sync'', Directory), (''sync/a'', Directory), (''sync/a/b'', Directory),
                     (''sync/a/b/c.txt'', File [1] (seconds 10))],
      remote_tree = [],
      clock = seconds 1000,
      faulty = (\<lambda>c. False),
      cut = 0,
      journal = []\<rparr>"

definition nested_remote_world :: mem where
  "nested_remote_world =
     \<lparr>local_tree = [(''sync'', Directory)],
      remote_tree = [(''/a'', Directory), (''/a/b'', Directory),
                      (''/a/b/c.txt'', File [1] (seconds 10))],
      clock = seconds 1000,
      faulty = (\<lambda>c. False),
      cut = 0,
      journal = []\<rparr>"

section \<open>Verified properties\<close>

subsection \<open>Auxiliary facts\<close>

lemma mem_env_fields:
  "dav_ReadDir mem_env = mem_dav_ReadDir"
  "dav_Stat mem_env = mem_dav_Stat"
  "dav_ReadStream mem_env = mem_dav_ReadStream"
  "dav_WriteStream mem_env = mem_dav_WriteStream"
  "dav_Mkdir mem_env = mem_dav_Mkdir"
  "dav_Remove mem_env = mem_dav_Remove"
  "os_Stat mem_env = mem_os_Stat"
  "os_ReadDir mem_env = mem_os_ReadDir"
  "os_MkdirAll mem_env = mem_os_MkdirAll"
  "os_Create mem_env = mem_os_Create"
  "os_Open mem_env = mem_os_Open"
  "io_Copy mem_env = mem_io_Copy"
  "file_Close mem_env = mem_file_Close"
  "os_Rename mem_env = mem_os_Rename"
  "os_Chtimes mem_env = mem_os_Chtimes"
  "os_Remove mem_env = mem_os_Remove"
  "os_RemoveAll mem_env = mem_os_RemoveAll"
  "fp_Join mem_env = Join"
  "fp_Dir mem_env = Dir"
  "fp_Base mem_env = Base"
  "fp_Rel mem_env = Rel"
  "fp_ToSlash mem_env = (\<lambda>path. path)"
  "fp_Walk mem_env = mem_fp_Walk"
  "time_Sleep mem_env = mem_time_Sleep"
  by (simp_all add: mem_env_def)

lemma returns_pair: "returns run \<Longrightarrow> run = Some (fst (the run), snd (the run))"
  by (cases run) (auto simp: returns_def)

lemma returns_run:
  "returns run \<Longrightarrow> run = Some (error_of run, the (state_of run), phases_of run)"
  by (cases run) (auto simp: returns_def error_of_def state_of_def phases_of_def)

lemma returns_clean:
  "returns run \<Longrightarrow> fst (the run) = None \<Longrightarrow> run = Some (None, snd (the run))"
  by (cases run) (auto simp: returns_def)

subsection \<open>Retry\<close>

lemma Retry_loop_ok:
  "i < attempts \<Longrightarrow> operation s = (None, s1) \<Longrightarrow>
   Retry_loop attempts i sleep operation pause err s = (None, s1, [Invoked None])"
  by simp

lemma Retry_loop_last:
  "i < attempts \<Longrightarrow> \<not> i < attempts - 1 \<Longrightarrow> operation s = (Some e, s1) \<Longrightarrow>
   Retry_loop attempts i sleep operation pause err s =
     (Some (RetryFailed attempts (Some e)), s1, [Invoked (Some e)])"
  by (subst Retry_loop.simps) simp

lemma Retry_loop_again:
  "i < attempts - 1 \<Longrightarrow> operation s = (Some e, s1) \<Longrightarrow>
   Retry_loop attempts i sleep operation pause err s =
     (case Retry_loop attempts (i + 1) (sleep * 2) operation pause (Some e) (pause sleep s1) of
        (r, s2, evs) \<Rightarrow> (r, s2, Invoked (Some e) # Slept sleep # evs))"
  by (subst Retry_loop.simps) simp

text \<open>
  What one run of the loop from counter \<open>i\<close> looks like: the events follow the backoff
  schedule from the current delay, every invocation but the last failed, and the run ends
  either with a success or with the last of the \<open>attempts - i\<close> invocations failing.
\<close>

lemma Retry_loop_shape:
  "i < attempts \<Longrightarrow> Retry_loop attempts i sleep operation pause err s = (r, s', evs) \<Longrightarrow>
     evs = backoff_schedule sleep (invocations evs)
   \<and> invocations evs \<noteq> []
   \<and> int (length (invocations evs)) \<le> attempts - i
   \<and> (\<forall>x \<in> set (butlast (invocations evs)). x \<noteq> None)
   \<and> (r = None \<longrightarrow> last (invocations evs) = None)
   \<and> (r \<noteq> None \<longrightarrow> int (length (invocations evs)) = attempts - i
          \<and> last (invocations evs) \<noteq> None
          \<and> r = Some (RetryFailed attempts (last (invocations evs))))"
proof (induction attempts i sleep operation pause err s arbitrary: r s' evs
    rule: Retry_loop.induct)
  case (1 attempts i sleep operation pause err s)
  obtain res s1 where op: "operation s = (res, s1)" by (cases "operation s")
  show ?case
  proof (cases res)
    case None
    with op "1.prems" show ?thesis
      by (auto simp add: Retry_loop_ok simp del: Retry_loop.simps)
  next
    case (Some e)
    show ?thesis
    proof (cases "i < attempts - 1")
      case False
      with op Some "1.prems" show ?thesis
        by (auto simp add: Retry_loop_last simp del: Retry_loop.simps)
    next
      case True
      obtain r2 s2 evs2 where rec:
        "Retry_loop attempts (i + 1) (sleep * 2) operation pause (Some e) (pause sleep s1)
           = (r2, s2, evs2)"
        by (metis prod_cases3)
      from True have lt: "i + 1 < attempts" by simp
      have IH: "evs2 = backoff_schedule (sleep * 2) (invocations evs2)
         \<and> invocations evs2 \<noteq> []
         \<and> int (length (invocations evs2)) \<le> attempts - (i + 1)
         \<and> (\<forall>x \<in> set (butlast (invocations evs2)). x \<noteq> None)
         \<and> (r2 = None \<longrightarrow> last (invocations evs2) = None)
         \<and> (r2 \<noteq> None \<longrightarrow> int (length (invocations evs2)) = attempts - (i + 1)
                \<and> last (invocations evs2) \<noteq> None
                \<and> r2 = Some (RetryFailed attempts (last (invocations evs2))))"
        using "1.IH"(1)[OF "1.prems"(1) op[symmetric] Some True lt rec] by simp
      from "1.prems"(2) op Some True rec
      have eq: "r = r2" "s' = s2" "evs = Invoked (Some e) # Slept sleep # evs2"
        by (simp_all add: Retry_loop_again del: Retry_loop.simps)
      obtain x xs where inv2: "invocations evs2 = x # xs"
        using IH by (cases "invocations evs2") auto
      have b2: "backoff_schedule (sleep * 2) (x # xs) = evs2" using IH inv2 by simp
      have h3: "int (length (x # xs)) \<le> attempts - (i + 1)" using IH inv2 by simp
      have h4: "\<forall>y \<in> set (butlast (x # xs)). y \<noteq> None" using IH inv2 by simp
      have h5: "r2 = None \<longrightarrow> last (x # xs) = None" using IH inv2 by simp
      have h6: "r2 \<noteq> None \<longrightarrow> int (length (x # xs)) = attempts - (i + 1)
          \<and> last (x # xs) \<noteq> None
          \<and> r2 = Some (RetryFailed attempts (last (x # xs)))" using IH inv2 by simp
      have inv: "invocations evs = Some e # x # xs" by (simp add: eq inv2)
      have c1: "evs = backoff_schedule sleep (invocations evs)"
        unfolding inv by (simp add: b2 eq)
      have c3: "int (length (invocations evs)) \<le> attempts - i"
        using h3 by (simp add: inv)
      have c4: "\<forall>y \<in> set (butlast (invocations evs)). y \<noteq> None"
        using h4 by (simp add: inv)
      have c5: "r = None \<longrightarrow> last (invocations evs) = None"
        using h5 unfolding inv eq(1) by simp
      have c6: "r \<noteq> None \<longrightarrow> int (length (invocations evs)) = attempts - i
          \<and> last (invocations evs) \<noteq> None
          \<and> r = Some (RetryFailed attempts (last (invocations evs)))"
        using h6 unfolding inv eq(1) by simp
      show ?thesis using c1 c3 c4 c5 c6 inv by simp
    qed
  qed
qed

text \<open>The events of a run are the calls it makes, and its final state is theirs.\<close>

lemma Retry_loop_replay:
  "i < attempts \<Longrightarrow> Retry_loop attempts i sleep operation pause err s = (r, s', evs) \<Longrightarrow>
     genuine operation pause evs s \<and> s' = replay operation pause evs s"
proof (induction attempts i sleep operation pause err s arbitrary: r s' evs
    rule: Retry_loop.induct)
  case (1 attempts i sleep operation pause err s)
  obtain res s1 where op: "operation s = (res, s1)" by (cases "operation s")
  show ?case
  proof (cases res)
    case None
    with op "1.prems" show ?thesis
      by (auto simp add: Retry_loop_ok simp del: Retry_loop.simps)
  next
    case (Some e)
    show ?thesis
    proof (cases "i < attempts - 1")
      case False
      with op Some "1.prems" show ?thesis
        by (auto simp add: Retry_loop_last simp del: Retry_loop.simps)
    next
      case True
      obtain r2 s2 evs2 where rec:
        "Retry_loop attempts (i + 1) (sleep * 2) operation pause (Some e) (pause sleep s1)
           = (r2, s2, evs2)"
        by (metis prod_cases3)
      from True have lt: "i + 1 < attempts" by simp
      have IH: "genuine operation pause evs2 (pause sleep s1)
          \<and> s2 = replay operation pause evs2 (pause sleep s1)"
        using "1.IH"(1)[OF "1.prems"(1) op[symmetric] Some True lt rec] by simp
      from "1.prems"(2) op Some True rec
      have eq: "r = r2" "s' = s2" "evs = Invoked (Some e) # Slept sleep # evs2"
        by (simp_all add: Retry_loop_again del: Retry_loop.simps)
      show ?thesis using IH op Some by (simp add: eq)
    qed
  qed
qed

lemma sleeps_backoff_schedule:
  "sleeps (backoff_schedule d rs) = map (\<lambda>k. d * 2 ^ k) [0 ..< length rs - 1]"
proof (induction d rs rule: backoff_schedule.induct)
  case (3 d r r' rs)
  have "map (\<lambda>k. d * 2 ^ k) [0 ..< Suc (length rs)] =
        d # map (\<lambda>k. d * 2 * 2 ^ k) [0 ..< length rs]"
    by (simp add: upt_conv_Cons map_Suc_upt[symmetric] del: upt_Suc map_Suc_upt)
  with 3 show ?case by simp
qed simp_all

text \<open>
  The product is that of \<^verbatim>\<open>time.Duration\<close>: read as signed integers, the \<open>k\<close>-th delay
  is \<open>baseDelay\<close> times \<open>2 ^ k\<close> as long as that stays below \<open>2 ^ 63\<close> nanoseconds, and
  wraps beyond (a base delay of \<open>2 ^ 62\<close> nanoseconds doubles to a negative duration).
\<close>

lemma sint_backoff:
  assumes "0 \<le> sint d" and "sint d * 2 ^ k < 2 ^ 63"
  shows "sint (d * 2 ^ k :: 64 word) = sint d * 2 ^ k"
proof -
  have "d * 2 ^ k = word_of_int (sint d * 2 ^ k)" by simp
  then have "sint (d * 2 ^ k) = signed_take_bit 63 (sint d * 2 ^ k)"
    by (simp only: sint_sbintrunc') simp
  also have "\<dots> = sint d * 2 ^ k"
    using assms by (intro signed_take_bit_int_eq_self) (auto intro: order_trans[of _ 0])
  finally show ?thesis .
qed

lemma backoff_wraps: "sint ((2 ^ 62 :: 64 word) * 2) = - (2 ^ 63)"
  by simp

text \<open>
  Claim C5, as amended. For \<open>attempts \<ge> 1\<close>, \<open>Retry\<close> invokes the operation at least once
  and at most \<open>attempts\<close> times; every invocation before the last one failed, and the result
  is \<^verbatim>\<open>nil\<close> exactly when the last invocation succeeded, so it returns right after the first
  success. The events are an invocation, then a sleep and an invocation for each further
  attempt, with no sleep after the last invocation. They are the calls the run makes: each
  recorded result is what the operation returned in the state reached so far, and the final
  state is the one reached by making these calls, to the operation and to \<^verbatim>\<open>time.Sleep\<close>,
  in this order. The \<open>k\<close>-th sleep is called with \<open>baseDelay * 2 ^ k\<close>, the product of
  \<^verbatim>\<open>time.Duration\<close>, a 64-bit integer: read as a number of nanoseconds it is \<open>baseDelay\<close>
  times \<open>2 ^ k\<close> when \<open>baseDelay\<close> is not negative and that product is below \<open>2 ^ 63\<close>.
  When the result is an error, all \<open>attempts\<close> invocations were made and the error carries
  the attempt count and the error of the last invocation.
\<close>

theorem Retry_attempts_backoff:
  assumes "1 \<le> attempts"
    and "Retry attempts baseDelay operation pause s = (r, s', evs)"
  shows "1 \<le> length (invocations evs) \<and> int (length (invocations evs)) \<le> attempts
    \<and> (\<forall>x \<in> set (butlast (invocations evs)). x \<noteq> None)
    \<and> (r = None \<longleftrightarrow> last (invocations evs) = None)
    \<and> evs = backoff_schedule baseDelay (invocations evs)
    \<and> genuine operation pause evs s
    \<and> s' = replay operation pause evs s
    \<and> sleeps evs = map (\<lambda>k. baseDelay * 2 ^ k) [0 ..< length (invocations evs) - 1]
    \<and> (\<forall>k < length (sleeps evs). 0 \<le> sint baseDelay \<and> sint baseDelay * 2 ^ k < 2 ^ 63
          \<longrightarrow> sint (sleeps evs ! k) = sint baseDelay * 2 ^ k)
    \<and> (r \<noteq> None \<longrightarrow> int (length (invocations evs)) = attempts
          \<and> r = Some (RetryFailed attempts (last (invocations evs))))"
proof -
  from assms(1) have lt: "0 < attempts" by simp
  note sh = Retry_loop_shape[OF lt assms(2)[unfolded Retry_def]]
  note rp = Retry_loop_replay[OF lt assms(2)[unfolded Retry_def]]
  have ne: "invocations evs \<noteq> []" using sh by blast
  have sl: "sleeps evs = map (\<lambda>k. baseDelay * 2 ^ k) [0 ..< length (invocations evs) - 1]"
  proof -
    have "sleeps evs = sleeps (backoff_schedule baseDelay (invocations evs))" using sh by simp
    then show ?thesis by (simp only: sleeps_backoff_schedule)
  qed
  have rd: "\<forall>k < length (sleeps evs). 0 \<le> sint baseDelay \<and> sint baseDelay * 2 ^ k < 2 ^ 63
          \<longrightarrow> sint (sleeps evs ! k) = sint baseDelay * 2 ^ k"
  proof (intro allI impI)
    fix k assume k: "k < length (sleeps evs)"
      and b: "0 \<le> sint baseDelay \<and> sint baseDelay * 2 ^ k < 2 ^ 63"
    from k have "k < length (invocations evs) - 1" by (simp add: sl)
    then have "sleeps evs ! k = baseDelay * 2 ^ k" by (simp add: sl)
    with b show "sint (sleeps evs ! k) = sint baseDelay * 2 ^ k" by (simp add: sint_backoff)
  qed
  have len: "1 \<le> length (invocations evs)" using ne by (cases "invocations evs") simp_all
  have iff: "r = None \<longleftrightarrow> last (invocations evs) = None" using sh by blast
  show ?thesis using sh sl len iff rp rd by simp
qed

text \<open>
  The claim as stated fails where the doubling leaves the range of \<^verbatim>\<open>time.Duration\<close>:
  with a base delay of two seconds and 35 attempts that all fail, the 34th sleep is called
  with a negative duration, not with \<open>2 ^ 33\<close> times two seconds; with a base delay of
  \<open>2 ^ 62\<close> nanoseconds and three attempts the second sleep is already negative.
\<close>

theorem Retry_attempts_backoff_counterexample:
  "(1::int) \<le> 35
   \<and> fst (Retry 35 2000000000 always_fails tick (0, 0))
       = Some (RetryFailed 35 (Some (Err ''timeout'')))
   \<and> length (sleeps (snd (snd (Retry 35 2000000000 always_fails tick (0, 0))))) = 34
   \<and> sint (sleeps (snd (snd (Retry 35 2000000000 always_fails tick (0, 0)))) ! 33)
       = - 1266874889709551616
   \<and> sint (sleeps (snd (snd (Retry 35 2000000000 always_fails tick (0, 0)))) ! 33)
       \<noteq> 2 ^ 33 * sint (2000000000 :: Duration)
   \<and> map sint (sleeps (snd (snd (Retry 3 (2 ^ 62) always_fails tick (0, 0)))))
       = [2 ^ 62, - (2 ^ 63)]"
  by (simp add: Retry_def always_fails_def tick_def)

theorem Retry_attempts_backoff_witness:
  "(1::int) \<le> 3
   \<and> Retry 3 2000000000 flaky_clock tick (0, 0) =
       (None, (3, 6000000000),
        [Invoked (Some (Err ''timeout'')), Slept 2000000000,
         Invoked (Some (Err ''timeout'')), Slept 4000000000, Invoked None])
   \<and> replay flaky_clock tick
        [Invoked (Some (Err ''timeout'')), Slept 2000000000,
         Invoked (Some (Err ''timeout'')), Slept 4000000000, Invoked None] (0, 0)
       = (3, 6000000000)
   \<and> sleeps [Invoked (Some (Err ''timeout'')), Slept 2000000000,
              Invoked (Some (Err ''timeout'')), Slept 4000000000, Invoked None]
       = map (\<lambda>k. 2000000000 * 2 ^ k) [0 ..< 2]
   \<and> (1::nat) < 2 \<and> (0::int) \<le> sint (2000000000 :: Duration)
   \<and> sint (2000000000 :: Duration) * 2 ^ 1 < 2 ^ 63
   \<and> sint ([2000000000, 4000000000 :: Duration] ! 1) = sint (2000000000 :: Duration) * 2 ^ 1"
proof -
  have run: "Retry 3 2000000000 flaky_clock tick (0, 0) =
       (None, (3, 6000000000),
        [Invoked (Some (Err ''timeout'')), Slept 2000000000,
         Invoked (Some (Err ''timeout'')), Slept 4000000000, Invoked None])"
    by (simp add: Retry_def flaky_clock_def tick_def)
  have one: "(1::int) \<le> 3" by simp
  have b: "(0::int) \<le> sint (2000000000 :: Duration)"
    "sint (2000000000 :: Duration) * 2 ^ 1 < 2 ^ 63" by simp_all
  from Retry_attempts_backoff[OF one run] b show ?thesis
    using run by (simp add: numeral_2_eq_2)
qed

subsection \<open>findExtraFiles\<close>

lemma targetMap_fold:
  "fold (\<lambda>file m. m(file := True)) target m0 = (\<lambda>file. file \<in> set target \<or> m0 file)"
  by (induction target arbitrary: m0) (auto simp: fun_eq_iff)

text \<open>
  Claim C8. For the lists of the destination and of the source, the entries selected for
  deletion are the destination entries that are not in the source list, in their order: as
  sets, the selection is the difference \<open>destination - source\<close>.
\<close>

theorem findExtraFiles_set_difference:
  "set (findExtraFiles dest source) = set dest - set source
   \<and> findExtraFiles dest source = filter (\<lambda>file. file \<notin> set source) dest"
  by (auto simp: findExtraFiles_def targetMap_fold)

subsection \<open>The sync mode\<close>

lemma SyncDirectory_error_shape:
  assumes a: "SyncDirectory fuel env cfg p x = Some (Some e, x1)"
  shows "(\<exists>t e'. e = Wrapf t e') \<or> (\<exists>k e'. e = SyncErrors k e')"
proof (cases fuel)
  case 0
  with a show ?thesis by simp
next
  case (Suc n)
  show ?thesis
  proof (cases "ListFiles env p x")
    case (Inl err)
    with a Suc show ?thesis by auto
  next
    case (Inr files)
    with a Suc show ?thesis
      by (auto simp add: Let_def split: option.splits prod.splits if_splits)
  qed
qed

lemma syncLocalToWebDAV_error_shape:
  assumes a: "syncLocalToWebDAV fuel env cfg p x = Some (Some e, x1)"
  shows "(\<exists>t e'. e = Wrapf t e') \<or> (\<exists>k e'. e = SyncErrors k e')"
proof (cases fuel)
  case 0
  with a show ?thesis by simp
next
  case (Suc n)
  show ?thesis
  proof (cases "os_ReadDir env (fp_Join env (LocalDir cfg) p) x")
    case (Inl err)
    with a Suc show ?thesis by (auto simp: Let_def)
  next
    case (Inr files)
    with a Suc show ?thesis
      by (auto simp add: Let_def split: option.splits prod.splits if_splits)
  qed
qed

lemma RestoreFromWebDAV_not_UnknownMode:
  "RestoreFromWebDAV fuel env cfg x \<noteq> Some (Some (UnknownMode m), x', ps)"
proof
  assume a: "RestoreFromWebDAV fuel env cfg x = Some (Some (UnknownMode m), x', ps)"
  then obtain rf where rf: "buildRemoteFileList fuel env ''/'' x = Some (Inr rf)"
    by (auto simp: RestoreFromWebDAV_def split: option.splits sum.splits)
  with a obtain err x1 where sd: "SyncDirectory fuel env cfg ''/'' x = Some (err, x1)"
    by (auto simp: RestoreFromWebDAV_def split: option.splits)
  show False
  proof (cases err)
    case None
    with a rf sd show False
      by (auto simp: RestoreFromWebDAV_def Let_def split: prod.splits option.splits if_splits)
  next
    case (Some e)
    with a rf sd have "e = UnknownMode m"
      by (auto simp: RestoreFromWebDAV_def)
    with SyncDirectory_error_shape[OF sd[unfolded Some]] show False by auto
  qed
qed

lemma BackupToWebDAV_not_UnknownMode:
  "BackupToWebDAV fuel env cfg x \<noteq> Some (Some (UnknownMode m), x', ps)"
proof
  assume a: "BackupToWebDAV fuel env cfg x = Some (Some (UnknownMode m), x', ps)"
  then obtain lf where lf: "buildLocalFileList env cfg x = (lf, None)"
    by (auto simp: BackupToWebDAV_def split: option.splits prod.splits)
  with a obtain err x1 where sd: "syncLocalToWebDAV fuel env cfg ''/'' x = Some (err, x1)"
    by (auto simp: BackupToWebDAV_def split: option.splits)
  show False
  proof (cases err)
    case None
    with a lf sd show False
      by (auto simp: BackupToWebDAV_def Let_def split: sum.splits option.splits if_splits)
  next
    case (Some e)
    with a lf sd have "e = UnknownMode m"
      by (auto simp: BackupToWebDAV_def)
    with syncLocalToWebDAV_error_shape[OF sd[unfolded Some]] show False by auto
  qed
qed

text \<open>
  Claim C10. \<open>GetSyncMode\<close> answers \<open>BackupMode\<close> or \<open>RestoreMode\<close>, and \<open>RestoreMode\<close>
  for every mode string other than \<^verbatim>\<open>backup\<close>. So \<open>StartSync\<close> runs the backup when
  the mode is \<^verbatim>\<open>backup\<close> and the restore otherwise, and never returns the error of its
  \<^verbatim>\<open>default\<close> branch.
\<close>

theorem StartSync_never_unknown_mode:
  "(GetSyncMode cfg = BackupMode \<or> GetSyncMode cfg = RestoreMode)
   \<and> (Mode cfg \<noteq> ''backup'' \<longrightarrow> GetSyncMode cfg = RestoreMode)
   \<and> StartSync fuel env cfg x =
       (if Mode cfg = ''backup'' then BackupToWebDAV fuel env cfg x
        else RestoreFromWebDAV fuel env cfg x)
   \<and> StartSync fuel env cfg x \<noteq> Some (Some (UnknownMode m), x', ps)"
  using RestoreFromWebDAV_not_UnknownMode[of fuel env cfg x m x' ps]
    BackupToWebDAV_not_UnknownMode[of fuel env cfg x m x' ps]
  by (simp add: StartSync_def GetSyncMode_def BackupMode_def RestoreMode_def)

theorem StartSync_never_unknown_mode_witness:
  "Mode (cfg0\<lparr>Mode := ''mirror''\<rparr>) \<noteq> ''backup''
   \<and> GetSyncMode (cfg0\<lparr>Mode := ''mirror''\<rparr>) = RestoreMode
   \<and> StartSync 5 mem_env (cfg0\<lparr>Mode := ''mirror''\<rparr>) pull_world =
       RestoreFromWebDAV 5 mem_env (cfg0\<lparr>Mode := ''mirror''\<rparr>) pull_world"
  using StartSync_never_unknown_mode[of "cfg0\<lparr>Mode := ''mirror''\<rparr>" 5 mem_env pull_world]
  by (simp add: cfg0_def)

subsection \<open>The order of deletions\<close>

lemma sortByLengthDesc_result: "sort_Slice_result longer xs (sortByLengthDesc xs)"
proof -
  have "sorted (map (\<lambda>p. - int (length p)) (sortByLengthDesc xs))"
    unfolding sortByLengthDesc_def by (rule sorted_sort_key)
  then have "sorted_wrt (\<lambda>a b. - int (length a) \<le> - int (length b)) (sortByLengthDesc xs)"
    by (simp add: sorted_map)
  then have "sorted_wrt (\<lambda>a b. \<not> longer b a) (sortByLengthDesc xs)"
    by (rule sorted_wrt_mono_rel[rotated]) (auto simp: longer_def)
  then show ?thesis by (simp add: sort_Slice_result_def sortByLengthDesc_def)
qed

lemma child_before_parent:
  assumes "sort_Slice_result longer candidates order"
    and "i < length order" "j < length order"
    and "order ! j = order ! i @ ''/'' @ name"
  shows "j < i"
proof (rule ccontr)
  assume "\<not> j < i"
  moreover have "i \<noteq> j" using assms(4) by auto
  ultimately have "i < j" by simp
  with assms(1,3) have "\<not> longer (order ! j) (order ! i)"
    by (auto simp: sort_Slice_result_def sorted_wrt_iff_nth_less)
  with assms(4) show False by (simp add: longer_def)
qed


lemma sort_Slice_result_unique:
  assumes "sort_Slice_result longer xs ys" and "distinct (map length xs)"
  shows "ys = sortByLengthDesc xs"
proof -
  let ?f = "\<lambda>p::string. - int (length p)"
  from assms(1) have ms: "mset ys = mset xs" and sw: "sorted_wrt (\<lambda>a b. \<not> longer b a) ys"
    by (simp_all add: sort_Slice_result_def)
  have inj: "inj_on ?f (set xs)"
    using assms(2) by (auto simp: distinct_map inj_on_def)
  have s1: "sorted (map ?f ys)"
    unfolding sorted_map by (rule sorted_wrt_mono_rel[OF _ sw]) (auto simp: longer_def)
  have d: "distinct (map ?f xs)" using assms(2) inj by (simp add: distinct_map)
  have msf: "mset (map ?f ys) = mset (map ?f xs)" using ms by simp
  have mss: "mset (map ?f (sortByLengthDesc xs)) = mset (map ?f xs)"
    by (simp add: sortByLengthDesc_def)
  have d2: "distinct (map ?f ys)" using d mset_eq_imp_distinct_iff[OF msf] by blast
  have s2: "sorted (map ?f (sortByLengthDesc xs))"
    unfolding sortByLengthDesc_def by (rule sorted_sort_key)
  have d3: "distinct (map ?f (sortByLengthDesc xs))"
    using d mset_eq_imp_distinct_iff[OF mss] by blast
  have "set (map ?f ys) = set (map ?f (sortByLengthDesc xs))"
    using mset_eq_setD[OF msf] mset_eq_setD[OF mss] by blast
  with s1 d2 s2 d3 have eq: "map ?f ys = map ?f (sortByLengthDesc xs)"
    by (rule sorted_distinct_set_unique)
  have sy: "set ys = set xs" using ms by (rule mset_eq_setD)
  have ss: "set (sortByLengthDesc xs) = set xs" by (simp add: sortByLengthDesc_def)
  have "inj_on ?f (set ys \<union> set (sortByLengthDesc xs))" using inj sy ss by simp
  then show ?thesis using eq by (simp add: inj_on_map_eq_map)
qed

text \<open>
  In the in-memory world every removal that is carried out is journalled, in the order of
  the calls; a removal that fails is not.
\<close>

lemma RemoveAll_faulty: "faulty (snd (mem_os_RemoveAll q m)) = faulty m"
  by (simp add: mem_os_RemoveAll_def)

lemma RemoveAll_journal:
  "journal (fold (\<lambda>p m. snd (mem_os_RemoveAll (f p) m)) ps m)
     = journal m @ map (\<lambda>p. OsRemoveAll (f p)) (filter (\<lambda>p. \<not> faulty m (OsRemoveAll (f p))) ps)"
proof (induction ps arbitrary: m)
  case Nil
  then show ?case by simp
next
  case (Cons p ps)
  show ?case
    by (simp add: Cons.IH RemoveAll_faulty) (simp add: mem_os_RemoveAll_def)
qed

lemma Remove_journal:
  "\<exists>removed. subseq removed ps
     \<and> journal (fold (\<lambda>p m. snd (mem_dav_Remove p m)) ps m) = journal m @ map DavRemove removed"
proof (induction ps arbitrary: m)
  case Nil
  then show ?case by simp
next
  case (Cons p ps)
  from Cons.IH[of "snd (mem_dav_Remove p m)"] obtain removed where
    s: "subseq removed ps"
    and j: "journal (fold (\<lambda>p m. snd (mem_dav_Remove p m)) ps (snd (mem_dav_Remove p m)))
          = journal (snd (mem_dav_Remove p m)) @ map DavRemove removed"
    by blast
  have "journal (snd (mem_dav_Remove p m)) = journal m
      \<or> journal (snd (mem_dav_Remove p m)) = journal m @ [DavRemove p]"
    by (simp add: mem_dav_Remove_def split: option.splits)
  then show ?case
  proof
    assume "journal (snd (mem_dav_Remove p m)) = journal m"
    with s j show ?thesis by (intro exI[of _ removed]) (simp add: list_emb_Cons)
  next
    assume "journal (snd (mem_dav_Remove p m)) = journal m @ [DavRemove p]"
    with s j show ?thesis by (intro exI[of _ "p # removed"]) simp
  qed
qed

text \<open>
  Claim C6. In both directions a run that reaches the reconciliation calls the removal for
  the candidates one after the other, in the order the sort leaves them in, longest path
  first: the state it returns is the result of these calls in this order. In the in-memory
  world the removals carried out are journalled in that order. The order the model computes
  is one that \<^verbatim>\<open>sort.Slice\<close> may produce; in every such order a candidate that extends
  another candidate by a separator and a name comes before it, so a child is deleted before
  its parent; and for the candidates \<^verbatim>\<open>a\<close>, \<^verbatim>\<open>a/b\<close>, \<^verbatim>\<open>a/b/c.txt\<close> the only possible
  order is \<^verbatim>\<open>a/b/c.txt\<close>, \<^verbatim>\<open>a/b\<close>, \<^verbatim>\<open>a\<close>.
\<close>

theorem deletion_order_children_first:
  "(SyncDelete cfg
     \<and> buildRemoteFileList fuel env ''/'' x = Some (Inr remoteFiles)
     \<and> SyncDirectory fuel env cfg ''/'' x = Some (None, x1)
     \<and> buildLocalFileList env cfg x1 = (localFiles, None)
    \<longrightarrow> RestoreFromWebDAV fuel env cfg x =
          Some (None,
                fold (\<lambda>p x. snd (os_RemoveAll env (fp_Join env (LocalDir cfg) p) x))
                  (sortByLengthDesc (findExtraFiles localFiles remoteFiles)) x1,
                [EnumerateRemote, MainPass, EnumerateLocal]
                @ map (\<lambda>p. DeleteLocal (fp_Join env (LocalDir cfg) p))
                    (sortByLengthDesc (findExtraFiles localFiles remoteFiles))))
   \<and> (SyncDelete cfg
     \<and> buildLocalFileList env cfg x = (localFiles', None)
     \<and> syncLocalToWebDAV fuel env cfg ''/'' x = Some (None, x1')
     \<and> buildRemoteFileList fuel env ''/'' x1' = Some (Inr remoteFiles')
    \<longrightarrow> BackupToWebDAV fuel env cfg x =
          Some (None,
                fold (\<lambda>p x. snd (dav_Remove env p x))
                  (sortByLengthDesc (findExtraFiles remoteFiles' localFiles')) x1',
                [EnumerateLocal, MainPass, EnumerateRemote]
                @ map DeleteRemote (sortByLengthDesc (findExtraFiles remoteFiles' localFiles'))))
   \<and> journal (fold (\<lambda>p m. snd (os_RemoveAll mem_env (fp_Join mem_env dir p) m)) paths m)
       = journal m @ map (\<lambda>p. OsRemoveAll (fp_Join mem_env dir p))
                       (filter (\<lambda>p. \<not> faulty m (OsRemoveAll (fp_Join mem_env dir p))) paths)
   \<and> (\<exists>removed. subseq removed paths
         \<and> journal (fold (\<lambda>p m. snd (dav_Remove mem_env p m)) paths m)
             = journal m @ map DavRemove removed)
   \<and> sort_Slice_result longer candidates (sortByLengthDesc candidates)
   \<and> (\<forall>order i j name.
         sort_Slice_result longer candidates order \<and> i < length order \<and> j < length order
         \<and> order ! j = order ! i @ ''/'' @ name \<longrightarrow> j < i)
   \<and> (\<forall>order. sort_Slice_result longer [''a'', ''a/b'', ''a/b/c.txt''] order
         \<longrightarrow> order = [''a/b/c.txt'', ''a/b'', ''a''])"
proof (intro conjI allI impI)
  assume "SyncDelete cfg
     \<and> buildRemoteFileList fuel env ''/'' x = Some (Inr remoteFiles)
     \<and> SyncDirectory fuel env cfg ''/'' x = Some (None, x1)
     \<and> buildLocalFileList env cfg x1 = (localFiles, None)"
  then show "RestoreFromWebDAV fuel env cfg x =
          Some (None,
                fold (\<lambda>p x. snd (os_RemoveAll env (fp_Join env (LocalDir cfg) p) x))
                  (sortByLengthDesc (findExtraFiles localFiles remoteFiles)) x1,
                [EnumerateRemote, MainPass, EnumerateLocal]
                @ map (\<lambda>p. DeleteLocal (fp_Join env (LocalDir cfg) p))
                    (sortByLengthDesc (findExtraFiles localFiles remoteFiles)))"
    by (simp add: RestoreFromWebDAV_def Let_def)
next
  assume "SyncDelete cfg
     \<and> buildLocalFileList env cfg x = (localFiles', None)
     \<and> syncLocalToWebDAV fuel env cfg ''/'' x = Some (None, x1')
     \<and> buildRemoteFileList fuel env ''/'' x1' = Some (Inr remoteFiles')"
  then show "BackupToWebDAV fuel env cfg x =
          Some (None,
                fold (\<lambda>p x. snd (dav_Remove env p x))
                  (sortByLengthDesc (findExtraFiles remoteFiles' localFiles')) x1',
                [EnumerateLocal, MainPass, EnumerateRemote]
                @ map DeleteRemote (sortByLengthDesc (findExtraFiles remoteFiles' localFiles')))"
    by (simp add: BackupToWebDAV_def Let_def)
next
  show "journal (fold (\<lambda>p m. snd (os_RemoveAll mem_env (fp_Join mem_env dir p) m)) paths m)
       = journal m @ map (\<lambda>p. OsRemoveAll (fp_Join mem_env dir p))
                       (filter (\<lambda>p. \<not> faulty m (OsRemoveAll (fp_Join mem_env dir p))) paths)"
    unfolding mem_env_fields by (rule RemoveAll_journal)
next
  show "\<exists>removed. subseq removed paths
         \<and> journal (fold (\<lambda>p m. snd (dav_Remove mem_env p m)) paths m)
             = journal m @ map DavRemove removed"
    unfolding mem_env_fields by (rule Remove_journal)
next
  show "sort_Slice_result longer candidates (sortByLengthDesc candidates)"
    by (rule sortByLengthDesc_result)
next
  fix order i j name
  assume "sort_Slice_result longer candidates order \<and> i < length order \<and> j < length order
         \<and> order ! j = order ! i @ ''/'' @ name"
  then show "j < i" using child_before_parent by blast
next
  fix order
  assume a: "sort_Slice_result longer [''a'', ''a/b'', ''a/b/c.txt''] order"
  have "distinct (map length [''a'', ''a/b'', ''a/b/c.txt''])" by simp
  from sort_Slice_result_unique[OF a this]
  show "order = [''a/b/c.txt'', ''a/b'', ''a'']" by (simp add: sortByLengthDesc_def)
qed

theorem deletion_order_children_first_witness:
  "SyncDelete cfg0
   \<and> buildRemoteFileList 5 mem_env ''/'' nested_local_world = Some (Inr [])
   \<and> returns (SyncDirectory 5 mem_env cfg0 ''/'' nested_local_world)
   \<and> fst (the (SyncDirectory 5 mem_env cfg0 ''/'' nested_local_world)) = None
   \<and> buildLocalFileList mem_env cfg0 (snd (the (SyncDirectory 5 mem_env cfg0 ''/'' nested_local_world)))
        = ([''a'', ''a/b'', ''a/b/c.txt''], None)
   \<and> journal (the (state_of (RestoreFromWebDAV 5 mem_env cfg0 nested_local_world)))
        = [OsRemoveAll ''sync/a/b/c.txt'', OsRemoveAll ''sync/a/b'', OsRemoveAll ''sync/a'']
   \<and> SyncDelete cfg_backup
   \<and> buildLocalFileList mem_env cfg_backup nested_remote_world = ([], None)
   \<and> returns (syncLocalToWebDAV 5 mem_env cfg_backup ''/'' nested_remote_world)
   \<and> fst (the (syncLocalToWebDAV 5 mem_env cfg_backup ''/'' nested_remote_world)) = None
   \<and> buildRemoteFileList 5 mem_env ''/''
          (snd (the (syncLocalToWebDAV 5 mem_env cfg_backup ''/'' nested_remote_world)))
        = Some (Inr [''a'', ''a'', ''/a/b'', ''/a/b'', ''/a/b/c.txt''])
   \<and> journal (the (state_of (BackupToWebDAV 5 mem_env cfg_backup nested_remote_world)))
        = [DavRemove ''/a/b/c.txt'', DavRemove ''/a/b'', DavRemove ''a'']
   \<and> sort_Slice_result longer [''a'', ''a/b'', ''a/b/c.txt'']
        (sortByLengthDesc [''a'', ''a/b'', ''a/b/c.txt''])
   \<and> sortByLengthDesc [''a'', ''a/b'', ''a/b/c.txt''] = [''a/b/c.txt'', ''a/b'', ''a'']
   \<and> [''a/b/c.txt'', ''a/b'', ''a''] ! 1 = [''a/b/c.txt'', ''a/b'', ''a''] ! 2 @ ''/'' @ ''b''
   \<and> (1::nat) < 2"
proof -
  let ?S = "SyncDirectory 5 mem_env cfg0 ''/'' nested_local_world"
  let ?L = "syncLocalToWebDAV 5 mem_env cfg_backup ''/'' nested_remote_world"
  have a1: "SyncDelete cfg0" by code_simp
  have a2: "buildRemoteFileList 5 mem_env ''/'' nested_local_world = Some (Inr [])" by code_simp
  have a3: "returns ?S" by code_simp
  have a4: "fst (the ?S) = None" by code_simp
  have a5: "buildLocalFileList mem_env cfg0 (snd (the ?S)) = ([''a'', ''a/b'', ''a/b/c.txt''], None)"
    by code_simp
  have b1: "SyncDelete cfg_backup" by code_simp
  have b2: "buildLocalFileList mem_env cfg_backup nested_remote_world = ([], None)" by code_simp
  have b3: "returns ?L" by code_simp
  have b4: "fst (the ?L) = None" by code_simp
  have b5: "buildRemoteFileList 5 mem_env ''/'' (snd (the ?L))
        = Some (Inr [''a'', ''a'', ''/a/b'', ''/a/b'', ''/a/b/c.txt''])" by code_simp
  have j1: "journal (fold (\<lambda>p x. snd (os_RemoveAll mem_env (fp_Join mem_env (LocalDir cfg0) p) x))
                  (sortByLengthDesc (findExtraFiles [''a'', ''a/b'', ''a/b/c.txt''] [])) (snd (the ?S)))
        = [OsRemoveAll ''sync/a/b/c.txt'', OsRemoveAll ''sync/a/b'', OsRemoveAll ''sync/a'']"
    by code_simp
  have j2: "journal (fold (\<lambda>p x. snd (dav_Remove mem_env p x))
                  (sortByLengthDesc (findExtraFiles [''a'', ''a'', ''/a/b'', ''/a/b'', ''/a/b/c.txt''] []))
                  (snd (the ?L)))
        = [DavRemove ''/a/b/c.txt'', DavRemove ''/a/b'', DavRemove ''a'']"
    by code_simp
  note i1 = deletion_order_children_first[of cfg0 5 mem_env nested_local_world "[]" "snd (the ?S)"
      "[''a'', ''a/b'', ''a/b/c.txt'']" "[]" nested_local_world "[]" "''sync''" "[]"
      nested_local_world "[''a'', ''a/b'', ''a/b/c.txt'']"]
  from i1 have c1: "sort_Slice_result longer [''a'', ''a/b'', ''a/b/c.txt'']
        (sortByLengthDesc [''a'', ''a/b'', ''a/b/c.txt''])" by blast
  with i1 have c2: "sortByLengthDesc [''a'', ''a/b'', ''a/b/c.txt''] = [''a/b/c.txt'', ''a/b'', ''a'']"
    by blast
  from i1 a1 a2 returns_clean[OF a3 a4] a5
  have "RestoreFromWebDAV 5 mem_env cfg0 nested_local_world =
          Some (None,
                fold (\<lambda>p x. snd (os_RemoveAll mem_env (fp_Join mem_env (LocalDir cfg0) p) x))
                  (sortByLengthDesc (findExtraFiles [''a'', ''a/b'', ''a/b/c.txt''] [])) (snd (the ?S)),
                [EnumerateRemote, MainPass, EnumerateLocal]
                @ map (\<lambda>p. DeleteLocal (fp_Join mem_env (LocalDir cfg0) p))
                    (sortByLengthDesc (findExtraFiles [''a'', ''a/b'', ''a/b/c.txt''] [])))"
    by blast
  then have r1: "journal (the (state_of (RestoreFromWebDAV 5 mem_env cfg0 nested_local_world)))
        = [OsRemoveAll ''sync/a/b/c.txt'', OsRemoveAll ''sync/a/b'', OsRemoveAll ''sync/a'']"
    by (simp add: state_of_def j1)
  note i2 = deletion_order_children_first[of cfg_backup 5 mem_env nested_remote_world _ _ _
      "[]" "snd (the ?L)" "[''a'', ''a'', ''/a/b'', ''/a/b'', ''/a/b/c.txt'']"]
  from i2 b1 b2 returns_clean[OF b3 b4] b5
  have "BackupToWebDAV 5 mem_env cfg_backup nested_remote_world =
          Some (None,
                fold (\<lambda>p x. snd (dav_Remove mem_env p x))
                  (sortByLengthDesc (findExtraFiles [''a'', ''a'', ''/a/b'', ''/a/b'', ''/a/b/c.txt''] []))
                  (snd (the ?L)),
                [EnumerateLocal, MainPass, EnumerateRemote]
                @ map DeleteRemote
                    (sortByLengthDesc (findExtraFiles [''a'', ''a'', ''/a/b'', ''/a/b'', ''/a/b/c.txt''] [])))"
    by blast
  then have r2: "journal (the (state_of (BackupToWebDAV 5 mem_env cfg_backup nested_remote_world)))
        = [DavRemove ''/a/b/c.txt'', DavRemove ''/a/b'', DavRemove ''a'']"
    by (simp add: state_of_def j2)
  have c3: "[''a/b/c.txt'', ''a/b'', ''a''] ! 1 = [''a/b/c.txt'', ''a/b'', ''a''] ! 2 @ ''/'' @ ''b''"
    "(1::nat) < 2" by simp_all
  show ?thesis using a1 a2 a3 a4 a5 r1 b1 b2 b3 b4 b5 r2 c1 c2 c3 by blast
qed

subsection \<open>Downloading a file\<close>

lemma DownloadFile_copy_error:
  assumes st: "dav_Stat mem_env remotePath m = Inr fileInfo"
    and rs: "dav_ReadStream mem_env remotePath m = Inr reader"
    and cr: "os_Create mem_env (localPath @ ''.download'') m = (None, m1)"
    and cp: "io_Copy mem_env (localPath @ ''.download'') reader m1 = (Some e, m2)"
  shows "\<exists>m'. DownloadFile mem_env remotePath localPath remoteModTime m = (Some e, m')
     \<and> map_of (local_tree m') localPath = map_of (local_tree m) localPath
     \<and> map_of (local_tree m') (localPath @ ''.download'') = None
     \<and> remote_tree m' = remote_tree m
     \<and> journal m' = journal m @ [OsCreate (localPath @ ''.download''),
                                   IoCopy (localPath @ ''.download''),
                                   OsRemove (localPath @ ''.download'')]"
proof -
  let ?tmp = "localPath @ ''.download''"
  from cr have m1: "m1 = m\<lparr>local_tree := AList.update ?tmp (File [] (clock m)) (local_tree m),
                    journal := journal m @ [OsCreate ?tmp]\<rparr>"
    by (auto simp: mem_env_fields mem_os_Create_def split: if_splits)
  from cp have m2: "m2 = m1\<lparr>local_tree := AList.update ?tmp (File (take (cut m1) reader) (clock m1)) (local_tree m1),
              journal := journal m1 @ [IoCopy ?tmp]\<rparr>"
    by (auto simp: mem_env_fields mem_io_Copy_def split: if_splits)
  have run: "DownloadFile mem_env remotePath localPath remoteModTime m
      = (Some e, DownloadFile_cleanup mem_env ?tmp m2)"
    using st rs cr cp by (simp add: DownloadFile_def Let_def)
  have cl: "DownloadFile_cleanup mem_env ?tmp m2 =
      m2\<lparr>local_tree := AList.delete ?tmp (local_tree m2), journal := journal m2 @ [OsRemove ?tmp]\<rparr>"
    by (simp add: DownloadFile_cleanup_def mem_env_fields mem_file_Close_def mem_os_Remove_def m2
        update_conv')
  show ?thesis
    unfolding run cl by (simp add: m2 m1 update_conv' delete_conv')
qed

lemma cleanup_journal:
  "set (journal (DownloadFile_cleanup mem_env tmp m)) \<subseteq> set (journal m) \<union> {OsRemove tmp}"
  by (auto simp: DownloadFile_cleanup_def mem_env_fields mem_file_Close_def mem_os_Remove_def
      split: option.splits)

lemma create_journal:
  "os_Create mem_env tmp m = (r, m1) \<Longrightarrow> set (journal m1) \<subseteq> set (journal m) \<union> {OsCreate tmp}"
  by (auto simp: mem_env_fields mem_os_Create_def split: if_splits)

lemma copy_journal:
  "io_Copy mem_env tmp reader m = (r, m1) \<Longrightarrow> set (journal m1) \<subseteq> set (journal m) \<union> {IoCopy tmp}"
  by (auto simp: mem_env_fields mem_io_Copy_def split: if_splits)

lemma close_journal:
  "file_Close mem_env tmp m = (r, m1) \<Longrightarrow> journal m1 = journal m"
  by (auto simp: mem_env_fields mem_file_Close_def split: if_splits)

lemma rename_journal:
  "os_Rename mem_env tmp p m = (Some e, m1) \<Longrightarrow> journal m1 = journal m"
  by (auto simp: mem_env_fields mem_os_Rename_def split: if_splits option.splits)

lemma DownloadFile_rename_after_copy:
  assumes run: "DownloadFile mem_env remotePath localPath remoteModTime m = (r, m')"
    and new: "OsRename (localPath @ ''.download'') localPath \<in> set (journal m')"
    and old: "OsRename (localPath @ ''.download'') localPath \<notin> set (journal m)"
  shows "\<exists>reader m1 m2. dav_ReadStream mem_env remotePath m = Inr reader
           \<and> os_Create mem_env (localPath @ ''.download'') m = (None, m1)
           \<and> io_Copy mem_env (localPath @ ''.download'') reader m1 = (None, m2)"
proof -
  let ?tmp = "localPath @ ''.download''"
  let ?rn = "OsRename ?tmp localPath"
  obtain fi where st: "dav_Stat mem_env remotePath m = Inr fi"
    using run new old by (cases "dav_Stat mem_env remotePath m") (auto simp: DownloadFile_def)
  obtain reader where rs: "dav_ReadStream mem_env remotePath m = Inr reader"
    using run new old st by (cases "dav_ReadStream mem_env remotePath m") (auto simp: DownloadFile_def)
  obtain c m1 where cr: "os_Create mem_env ?tmp m = (c, m1)" by (cases "os_Create mem_env ?tmp m")
  have j1: "?rn \<notin> set (journal m1)" using create_journal[OF cr] old by auto
  have c: "c = None"
  proof (cases c)
    case (Some e)
    with run st rs cr have "m' = m1" by (simp add: DownloadFile_def Let_def)
    with new j1 show ?thesis by simp
  qed simp
  obtain d m2 where cp: "io_Copy mem_env ?tmp reader m1 = (d, m2)" by (cases "io_Copy mem_env ?tmp reader m1")
  have j2: "?rn \<notin> set (journal m2)" using copy_journal[OF cp] j1 by auto
  have d: "d = None"
  proof (cases d)
    case (Some e)
    with run st rs cr c cp have "m' = DownloadFile_cleanup mem_env ?tmp m2"
      by (simp add: DownloadFile_def Let_def)
    with new j2 cleanup_journal[of ?tmp m2] show ?thesis by auto
  qed simp
  show ?thesis using rs cr c cp d by simp
qed

text \<open>
  Claim C4. When the copy of the remote stream into the temporary file returns an error,
  \<open>DownloadFile\<close> returns that error, the entry at the final path is what it was before
  (absent, or the previous file), the temporary file \<^verbatim>\<open>localPath + ".download"\<close> is gone,
  and nothing was renamed. In general, whenever a run of \<open>DownloadFile\<close> renames the
  temporary file onto the final path, the copy of the stream had returned without error.
\<close>

theorem DownloadFile_stream_failure_atomic:
  "(dav_Stat mem_env remotePath m = Inr fileInfo
    \<and> dav_ReadStream mem_env remotePath m = Inr reader
    \<and> fst (os_Create mem_env (localPath @ ''.download'') m) = None
    \<and> fst (io_Copy mem_env (localPath @ ''.download'') reader
              (snd (os_Create mem_env (localPath @ ''.download'') m))) = Some e
    \<longrightarrow> fst (DownloadFile mem_env remotePath localPath remoteModTime m) = Some e
      \<and> map_of (local_tree (snd (DownloadFile mem_env remotePath localPath remoteModTime m))) localPath
          = map_of (local_tree m) localPath
      \<and> map_of (local_tree (snd (DownloadFile mem_env remotePath localPath remoteModTime m)))
            (localPath @ ''.download'') = None
      \<and> journal (snd (DownloadFile mem_env remotePath localPath remoteModTime m))
          = journal m @ [OsCreate (localPath @ ''.download''), IoCopy (localPath @ ''.download''),
                         OsRemove (localPath @ ''.download'')])
   \<and> (DownloadFile mem_env remotePath localPath remoteModTime m = (r, m')
      \<and> OsRename (localPath @ ''.download'') localPath \<in> set (journal m')
      \<and> OsRename (localPath @ ''.download'') localPath \<notin> set (journal m)
      \<longrightarrow> (\<exists>reader m1 m2. dav_ReadStream mem_env remotePath m = Inr reader
             \<and> os_Create mem_env (localPath @ ''.download'') m = (None, m1)
             \<and> io_Copy mem_env (localPath @ ''.download'') reader m1 = (None, m2)))"
proof (intro conjI impI)
  assume a: "dav_Stat mem_env remotePath m = Inr fileInfo
    \<and> dav_ReadStream mem_env remotePath m = Inr reader
    \<and> fst (os_Create mem_env (localPath @ ''.download'') m) = None
    \<and> fst (io_Copy mem_env (localPath @ ''.download'') reader
              (snd (os_Create mem_env (localPath @ ''.download'') m))) = Some e"
  let ?m1 = "snd (os_Create mem_env (localPath @ ''.download'') m)"
  let ?m2 = "snd (io_Copy mem_env (localPath @ ''.download'') reader ?m1)"
  from a have cr: "os_Create mem_env (localPath @ ''.download'') m = (None, ?m1)"
    by (simp add: prod_eq_iff)
  from a have cp: "io_Copy mem_env (localPath @ ''.download'') reader ?m1 = (Some e, ?m2)"
    by (simp add: prod_eq_iff)
  from a have st: "dav_Stat mem_env remotePath m = Inr fileInfo"
    and rs: "dav_ReadStream mem_env remotePath m = Inr reader" by simp_all
  from DownloadFile_copy_error[OF st rs cr cp, of remoteModTime]
  obtain m' where run: "DownloadFile mem_env remotePath localPath remoteModTime m = (Some e, m')"
    and keep: "map_of (local_tree m') localPath = map_of (local_tree m) localPath"
    and gone: "map_of (local_tree m') (localPath @ ''.download'') = None"
    and jr: "journal m' = journal m @ [OsCreate (localPath @ ''.download''),
                                   IoCopy (localPath @ ''.download''),
                                   OsRemove (localPath @ ''.download'')]"
    by blast
  show "fst (DownloadFile mem_env remotePath localPath remoteModTime m) = Some e"
    by (simp add: run)
  show "map_of (local_tree (snd (DownloadFile mem_env remotePath localPath remoteModTime m))) localPath
          = map_of (local_tree m) localPath"
    by (simp add: run keep)
  show "map_of (local_tree (snd (DownloadFile mem_env remotePath localPath remoteModTime m)))
            (localPath @ ''.download'') = None"
    by (simp add: run gone)
  show "journal (snd (DownloadFile mem_env remotePath localPath remoteModTime m))
          = journal m @ [OsCreate (localPath @ ''.download''), IoCopy (localPath @ ''.download''),
                         OsRemove (localPath @ ''.download'')]"
    by (simp add: run jr)
next
  assume "DownloadFile mem_env remotePath localPath remoteModTime m = (r, m')
      \<and> OsRename (localPath @ ''.download'') localPath \<in> set (journal m')
      \<and> OsRename (localPath @ ''.download'') localPath \<notin> set (journal m)"
  then show "\<exists>reader m1 m2. dav_ReadStream mem_env remotePath m = Inr reader
             \<and> os_Create mem_env (localPath @ ''.download'') m = (None, m1)
             \<and> io_Copy mem_env (localPath @ ''.download'') reader m1 = (None, m2)"
    using DownloadFile_rename_after_copy by blast
qed

theorem DownloadFile_stream_failure_atomic_witness:
  "dav_Stat mem_env ''x.txt'' pull_world_stale
      = Inr \<lparr>fi_Name = ''x.txt'', fi_IsDir = False, fi_ModTime = seconds 300, fi_Size = 3\<rparr>
   \<and> dav_ReadStream mem_env ''x.txt'' pull_world_stale = Inr [6, 7, 8]
   \<and> fst (os_Create mem_env (''sync/x.txt'' @ ''.download'') pull_world_stale) = None
   \<and> fst (io_Copy mem_env (''sync/x.txt'' @ ''.download'') [6, 7, 8]
             (snd (os_Create mem_env (''sync/x.txt'' @ ''.download'') pull_world_stale)))
        = Some (Err ''unexpected EOF'')
   \<and> fst (DownloadFile mem_env ''x.txt'' ''sync/x.txt'' (seconds 300) pull_world_stale)
        = Some (Err ''unexpected EOF'')
   \<and> map_of (local_tree (snd (DownloadFile mem_env ''x.txt'' ''sync/x.txt'' (seconds 300)
                                 pull_world_stale))) ''sync/x.txt''
        = Some (File [0] (seconds 10))
   \<and> map_of (local_tree (snd (DownloadFile mem_env ''x.txt'' ''sync/x.txt'' (seconds 300)
                                 pull_world_stale))) (''sync/x.txt'' @ ''.download'')
        = None"
proof -
  have h1: "dav_Stat mem_env ''x.txt'' pull_world_stale
      = Inr \<lparr>fi_Name = ''x.txt'', fi_IsDir = False, fi_ModTime = seconds 300, fi_Size = 3\<rparr>"
    by code_simp
  have h2: "dav_ReadStream mem_env ''x.txt'' pull_world_stale = Inr [6, 7, 8]"
    by code_simp
  have h3: "fst (os_Create mem_env (''sync/x.txt'' @ ''.download'') pull_world_stale) = None"
    by code_simp
  have h4: "fst (io_Copy mem_env (''sync/x.txt'' @ ''.download'') [6, 7, 8]
             (snd (os_Create mem_env (''sync/x.txt'' @ ''.download'') pull_world_stale)))
        = Some (Err ''unexpected EOF'')"
    by code_simp
  have before: "map_of (local_tree pull_world_stale) ''sync/x.txt'' = Some (File [0] (seconds 10))"
    by code_simp
  from DownloadFile_stream_failure_atomic[of "''x.txt''" pull_world_stale _ "[6, 7, 8]"
      "''sync/x.txt''" "Err ''unexpected EOF''" "seconds 300"] h1 h2 h3 h4 before
  show ?thesis by simp
qed


subsection \<open>Which snapshots the reconciliation reads\<close>

lemma Restore_phases:
  assumes "RestoreFromWebDAV fuel env cfg x = Some (r, x', ps)"
  shows "ps = [EnumerateRemote] \<or> ps = [EnumerateRemote, MainPass]
     \<or> (\<exists>ds. ps = [EnumerateRemote, MainPass, EnumerateLocal]
                   @ map (\<lambda>p. DeleteLocal (fp_Join env (LocalDir cfg) p)) ds)"
  using assms
  by (auto simp: RestoreFromWebDAV_def Let_def split: option.splits sum.splits prod.splits if_splits)

lemma Backup_phases:
  assumes "BackupToWebDAV fuel env cfg x = Some (r, x', ps)"
  shows "ps = [EnumerateLocal] \<or> ps = [EnumerateLocal, MainPass]
     \<or> (\<exists>ds. ps = [EnumerateLocal, MainPass, EnumerateRemote] @ map DeleteRemote ds)"
  using assms
  by (auto simp: BackupToWebDAV_def Let_def split: option.splits sum.splits prod.splits if_splits)

lemma Restore_reconciles:
  assumes sd: "SyncDelete cfg"
    and en: "buildRemoteFileList fuel env ''/'' x = Some (Inr remoteFiles)"
    and pass: "SyncDirectory fuel env cfg ''/'' x = Some (None, x1)"
    and loc: "buildLocalFileList env cfg x1 = (localFiles, None)"
  shows "\<exists>x2. RestoreFromWebDAV fuel env cfg x =
      Some (None, x2, [EnumerateRemote, MainPass, EnumerateLocal]
         @ map (\<lambda>p. DeleteLocal (fp_Join env (LocalDir cfg) p))
             (sortByLengthDesc (findExtraFiles localFiles remoteFiles)))"
  using assms by (simp add: RestoreFromWebDAV_def Let_def)

lemma Backup_reconciles:
  assumes sd: "SyncDelete cfg"
    and loc: "buildLocalFileList env cfg x = (localFiles, None)"
    and pass: "syncLocalToWebDAV fuel env cfg ''/'' x = Some (None, x1)"
    and en: "buildRemoteFileList fuel env ''/'' x1 = Some (Inr remoteFiles)"
  shows "\<exists>x2. BackupToWebDAV fuel env cfg x =
      Some (None, x2, [EnumerateLocal, MainPass, EnumerateRemote]
         @ map DeleteRemote (sortByLengthDesc (findExtraFiles remoteFiles localFiles)))"
  using assms by (simp add: BackupToWebDAV_def Let_def)

text \<open>
  Claim C2, as amended. With mirror deletion enabled, a run whose main pass returns no error
  enumerates the source tree once, before the main pass, and the destination tree once, after
  it: the deletion candidates are the entries of the destination as it is after the pass that
  are absent from the source as it was before the pass, longest path first. The phases of any
  run are the source enumeration, then the main pass, then the destination enumeration and the
  deletions, cut off where the run stops.
\<close>

theorem reconciliation_snapshots:
  "(SyncDelete cfg
    \<and> buildRemoteFileList fuel env ''/'' x = Some (Inr remoteFiles)
    \<and> SyncDirectory fuel env cfg ''/'' x = Some (None, x1)
    \<and> buildLocalFileList env cfg x1 = (localFiles, None)
    \<longrightarrow> (\<exists>x2. RestoreFromWebDAV fuel env cfg x =
           Some (None, x2, [EnumerateRemote, MainPass, EnumerateLocal]
             @ map (\<lambda>p. DeleteLocal (fp_Join env (LocalDir cfg) p))
                 (sortByLengthDesc (findExtraFiles localFiles remoteFiles)))))
   \<and> (SyncDelete cfg
    \<and> buildLocalFileList env cfg x = (localFiles', None)
    \<and> syncLocalToWebDAV fuel env cfg ''/'' x = Some (None, x1')
    \<and> buildRemoteFileList fuel env ''/'' x1' = Some (Inr remoteFiles')
    \<longrightarrow> (\<exists>x2. BackupToWebDAV fuel env cfg x =
           Some (None, x2, [EnumerateLocal, MainPass, EnumerateRemote]
             @ map DeleteRemote (sortByLengthDesc (findExtraFiles remoteFiles' localFiles')))))
   \<and> (RestoreFromWebDAV fuel env cfg x = Some (r, x', ps)
    \<longrightarrow> ps = [EnumerateRemote] \<or> ps = [EnumerateRemote, MainPass]
        \<or> (\<exists>ds. ps = [EnumerateRemote, MainPass, EnumerateLocal]
                      @ map (\<lambda>p. DeleteLocal (fp_Join env (LocalDir cfg) p)) ds))
   \<and> (BackupToWebDAV fuel env cfg x = Some (r', x'', ps')
    \<longrightarrow> ps' = [EnumerateLocal] \<or> ps' = [EnumerateLocal, MainPass]
        \<or> (\<exists>ds. ps' = [EnumerateLocal, MainPass, EnumerateRemote] @ map DeleteRemote ds))"
  using Restore_reconciles[of cfg fuel env x remoteFiles x1 localFiles]
    Backup_reconciles[of cfg env x localFiles' fuel x1' remoteFiles']
    Restore_phases[of fuel env cfg x r x' ps]
    Backup_phases[of fuel env cfg x r' x'' ps']
  by blast

text \<open>
  The claim as stated fails: in the pull world the local tree is enumerated after the main
  pass, and a file the pass has just created, absent before the pass, is among the deletions.
\<close>

theorem reconciliation_snapshots_counterexample:
  "\<not> enumerations_before_pass (phases_of (RestoreFromWebDAV 5 mem_env cfg0 pull_world))
   \<and> phases_of (RestoreFromWebDAV 5 mem_env cfg0 pull_world)
       = [EnumerateRemote, MainPass, EnumerateLocal,
          DeleteLocal ''sync/old.txt'', DeleteLocal ''sync/a/b.txt'']
   \<and> map_of (local_tree pull_world) ''sync/a/b.txt'' = None"
  by code_simp

theorem reconciliation_snapshots_witness:
  "SyncDelete cfg0
   \<and> buildRemoteFileList 5 mem_env ''/'' pull_world
        = Some (Inr [''a'', ''a'', ''/a/b.txt'', ''x.txt''])
   \<and> returns (SyncDirectory 5 mem_env cfg0 ''/'' pull_world)
   \<and> fst (the (SyncDirectory 5 mem_env cfg0 ''/'' pull_world)) = None
   \<and> buildLocalFileList mem_env cfg0 (snd (the (SyncDirectory 5 mem_env cfg0 ''/'' pull_world)))
        = ([''old.txt'', ''a'', ''a/b.txt'', ''x.txt''], None)
   \<and> phases_of (RestoreFromWebDAV 5 mem_env cfg0 pull_world)
        = [EnumerateRemote, MainPass, EnumerateLocal,
           DeleteLocal ''sync/old.txt'', DeleteLocal ''sync/a/b.txt'']
   \<and> SyncDelete cfg_backup
   \<and> buildLocalFileList mem_env cfg_backup push_world = ([''a.txt''], None)
   \<and> returns (syncLocalToWebDAV 5 mem_env cfg_backup ''/'' push_world)
   \<and> fst (the (syncLocalToWebDAV 5 mem_env cfg_backup ''/'' push_world)) = None
   \<and> buildRemoteFileList 5 mem_env ''/''
          (snd (the (syncLocalToWebDAV 5 mem_env cfg_backup ''/'' push_world)))
        = Some (Inr [''a.txt''])
   \<and> phases_of (BackupToWebDAV 5 mem_env cfg_backup push_world)
        = [EnumerateLocal, MainPass, EnumerateRemote]"
proof -
  let ?x1 = "snd (the (SyncDirectory 5 mem_env cfg0 ''/'' pull_world))"
  let ?y1 = "snd (the (syncLocalToWebDAV 5 mem_env cfg_backup ''/'' push_world))"
  have a1: "SyncDelete cfg0" by code_simp
  have a2: "buildRemoteFileList 5 mem_env ''/'' pull_world
        = Some (Inr [''a'', ''a'', ''/a/b.txt'', ''x.txt''])" by code_simp
  have a3: "returns (SyncDirectory 5 mem_env cfg0 ''/'' pull_world)" by code_simp
  have a4: "fst (the (SyncDirectory 5 mem_env cfg0 ''/'' pull_world)) = None" by code_simp
  have a5: "buildLocalFileList mem_env cfg0 ?x1
        = ([''old.txt'', ''a'', ''a/b.txt'', ''x.txt''], None)" by code_simp
  have pass: "SyncDirectory 5 mem_env cfg0 ''/'' pull_world = Some (None, ?x1)"
    using returns_pair[OF a3] a4 by simp
  have b1: "SyncDelete cfg_backup" by code_simp
  have b2: "buildLocalFileList mem_env cfg_backup push_world = ([''a.txt''], None)" by code_simp
  have b3: "returns (syncLocalToWebDAV 5 mem_env cfg_backup ''/'' push_world)" by code_simp
  have b4: "fst (the (syncLocalToWebDAV 5 mem_env cfg_backup ''/'' push_world)) = None"
    by code_simp
  have b5: "buildRemoteFileList 5 mem_env ''/'' ?y1 = Some (Inr [''a.txt''])" by code_simp
  have pass': "syncLocalToWebDAV 5 mem_env cfg_backup ''/'' push_world = Some (None, ?y1)"
    using returns_pair[OF b3] b4 by simp
  have d1: "map (\<lambda>p. DeleteLocal (fp_Join mem_env (LocalDir cfg0) p))
             (sortByLengthDesc (findExtraFiles [''old.txt'', ''a'', ''a/b.txt'', ''x.txt'']
                                  [''a'', ''a'', ''/a/b.txt'', ''x.txt'']))
        = [DeleteLocal ''sync/old.txt'', DeleteLocal ''sync/a/b.txt'']" by code_simp
  have d2: "map DeleteRemote (sortByLengthDesc (findExtraFiles [''a.txt''] [''a.txt''])) = []"
    by code_simp
  note inst1 = reconciliation_snapshots[of cfg0 5 mem_env pull_world
      "[''a'', ''a'', ''/a/b.txt'', ''x.txt'']" ?x1 "[''old.txt'', ''a'', ''a/b.txt'', ''x.txt'']"]
  from inst1 a1 a2 pass a5 obtain x2 where
    "RestoreFromWebDAV 5 mem_env cfg0 pull_world =
       Some (None, x2, [EnumerateRemote, MainPass, EnumerateLocal]
             @ map (\<lambda>p. DeleteLocal (fp_Join mem_env (LocalDir cfg0) p))
                 (sortByLengthDesc (findExtraFiles [''old.txt'', ''a'', ''a/b.txt'', ''x.txt'']
                                      [''a'', ''a'', ''/a/b.txt'', ''x.txt''])))"
    by blast
  then have r1: "phases_of (RestoreFromWebDAV 5 mem_env cfg0 pull_world)
        = [EnumerateRemote, MainPass, EnumerateLocal,
           DeleteLocal ''sync/old.txt'', DeleteLocal ''sync/a/b.txt'']"
    by (simp add: phases_of_def d1)
  note inst2 = reconciliation_snapshots[of cfg_backup 5 mem_env push_world _ _ _
      "[''a.txt'']" ?y1 "[''a.txt'']"]
  from inst2 b1 b2 pass' b5 obtain y2 where
    "BackupToWebDAV 5 mem_env cfg_backup push_world =
       Some (None, y2, [EnumerateLocal, MainPass, EnumerateRemote]
             @ map DeleteRemote (sortByLengthDesc (findExtraFiles [''a.txt''] [''a.txt''])))"
    by blast
  then have r2: "phases_of (BackupToWebDAV 5 mem_env cfg_backup push_world)
        = [EnumerateLocal, MainPass, EnumerateRemote]"
    by (simp add: phases_of_def d2)
  show ?thesis using a1 a2 a3 a4 a5 r1 b1 b2 b3 b4 b5 r2 by blast
qed

subsection \<open>When the reconciliation runs\<close>

text \<open>
  A pass returns an error exactly when one of its tasks fails, at any depth; a level of
  tasks collects an error exactly when one of them fails.
\<close>

lemma pull_error_iff:
  "(\<forall>e x1. SyncDirectory n env cfg remotePath x = Some (e, x1)
      \<longrightarrow> (e \<noteq> None \<longleftrightarrow> pull_fails n env cfg remotePath x))"
  "(\<forall>errs x1. SyncDirectory_tasks n env cfg files x = Some (errs, x1)
      \<longrightarrow> (errs \<noteq> [] \<longleftrightarrow> pull_tasks_fail n env cfg files x))"
proof (induction n env cfg remotePath x and n env cfg files x
    rule: SyncDirectory_SyncDirectory_tasks.induct)
  case (1 env cfg remotePath x)
  then show ?case by simp
next
  case (2 n env cfg remotePath x)
  show ?case
  proof (cases "ListFiles env remotePath x")
    case (Inl err)
    then show ?thesis by simp
  next
    case (Inr remoteFiles)
    with "2.IH"[OF Inr refl refl refl] show ?thesis
      by (auto simp: Let_def split: option.splits prod.splits if_splits)
  qed
next
  case (3 n env cfg x)
  then show ?case by simp
next
  case (4 n env cfg "file" files x)
  show ?case
  proof (cases "IsDir file")
    case False
    obtain err x1 where sf: "SyncFile env cfg file x = (err, x1)" by (cases "SyncFile env cfg file x")
    from "4.IH"(2)[of "(err, x1)" err x1] False sf
    have IH: "\<forall>errs x2. SyncDirectory_tasks n env cfg files x1 = Some (errs, x2)
      \<longrightarrow> (errs \<noteq> [] \<longleftrightarrow> pull_tasks_fail n env cfg files x1)" by simp
    show ?thesis using False sf IH
      by (cases err) (auto split: option.splits prod.splits)
  next
    case True
    obtain mk x0 where mk: "os_MkdirAll env (fp_Join env (LocalDir cfg) (Path file)) x = (mk, x0)"
      by (cases "os_MkdirAll env (fp_Join env (LocalDir cfg) (Path file)) x")
    show ?thesis
    proof (cases mk)
      case (Some e)
      with True mk show ?thesis by (auto split: option.splits prod.splits)
    next
      case None
      from "4.IH"(1)[OF True mk[symmetric] None]
      have IH1: "\<forall>e x1. SyncDirectory n env cfg (Path file) x0 = Some (e, x1)
         \<longrightarrow> (e \<noteq> None \<longleftrightarrow> pull_fails n env cfg (Path file) x0)" .
      show ?thesis
      proof (cases "SyncDirectory n env cfg (Path file) x0")
        case None
        with True mk \<open>mk = None\<close> show ?thesis by simp
      next
        case (Some res)
        obtain err x1 where res: "res = (err, x1)" by (cases res)
        from "4.IH"(2)[of "(err, x1)" err x1] True mk \<open>mk = None\<close> Some res
        have IH2: "\<forall>errs x2. SyncDirectory_tasks n env cfg files x1 = Some (errs, x2)
          \<longrightarrow> (errs \<noteq> [] \<longleftrightarrow> pull_tasks_fail n env cfg files x1)" by simp
        from IH1 Some res have e: "err \<noteq> None \<longleftrightarrow> pull_fails n env cfg (Path file) x0" by simp
        show ?thesis using True mk \<open>mk = None\<close> Some res IH2 e
          by (cases err) (auto split: option.splits prod.splits)
      qed
    qed
  qed
qed


lemma push_error_iff:
  "(\<forall>e x1. syncLocalToWebDAV n env cfg relativePath x = Some (e, x1)
      \<longrightarrow> (e \<noteq> None \<longleftrightarrow> push_fails n env cfg relativePath x))"
  "(\<forall>errs x1. syncLocalToWebDAV_tasks n env cfg relativePath entries x = Some (errs, x1)
      \<longrightarrow> (errs \<noteq> [] \<longleftrightarrow> push_tasks_fail n env cfg relativePath entries x))"
proof (induction n env cfg relativePath x and n env cfg relativePath entries x
    rule: syncLocalToWebDAV_syncLocalToWebDAV_tasks.induct)
  case (1 env cfg relativePath x)
  then show ?case by simp
next
  case (2 n env cfg relativePath x)
  show ?case
  proof (cases "os_ReadDir env (fp_Join env (LocalDir cfg) relativePath) x")
    case (Inl err)
    then show ?thesis by (simp add: Let_def)
  next
    case (Inr entries)
    with "2.IH"[OF refl Inr refl refl refl] show ?thesis
      by (auto simp: Let_def split: option.splits prod.splits if_splits)
  qed
next
  case (3 n env cfg relativePath x)
  then show ?case by simp
next
  case (4 n env cfg relativePath entry entries x)
  let ?rel = "fp_Join env relativePath (fi_Name entry)"
  let ?rp = "fp_ToSlash env (if ?rel = ''.'' then ''/'' else ?rel)"
  show ?case
  proof (cases "fi_IsDir entry")
    case False
    obtain err x1 where sf: "syncLocalFileToWebDAV env cfg ?rel ?rp x = (err, x1)"
      by (cases "syncLocalFileToWebDAV env cfg ?rel ?rp x")
    from "4.IH"(2)[OF refl refl, of "(err, x1)" err x1] False sf
    have IH: "\<forall>errs x2. syncLocalToWebDAV_tasks n env cfg relativePath entries x1 = Some (errs, x2)
      \<longrightarrow> (errs \<noteq> [] \<longleftrightarrow> push_tasks_fail n env cfg relativePath entries x1)" by simp
    show ?thesis using False sf IH
      by (cases err) (auto simp: Let_def split: option.splits prod.splits)
  next
    case True
    show ?thesis
    proof (cases "FileExists env ?rp x")
      case (Inl err)
      with True show ?thesis by (auto simp: Let_def split: option.splits prod.splits)
    next
      case (Inr exists)
      obtain mk x0 where mk: "(if \<not> exists then MakeDir env ?rp x else (None, x)) = (mk, x0)"
        by (cases "if \<not> exists then MakeDir env ?rp x else (None, x)")
      show ?thesis
      proof (cases mk)
        case (Some e)
        with True Inr mk show ?thesis by (auto simp: Let_def split: option.splits prod.splits)
      next
        case None
        from "4.IH"(1)[OF refl refl True Inr mk[symmetric] None]
        have IH1: "\<forall>e x1. syncLocalToWebDAV n env cfg ?rel x0 = Some (e, x1)
           \<longrightarrow> (e \<noteq> None \<longleftrightarrow> push_fails n env cfg ?rel x0)" .
        show ?thesis
        proof (cases "syncLocalToWebDAV n env cfg ?rel x0")
          case None
          with True Inr mk \<open>mk = None\<close> show ?thesis by (simp add: Let_def)
        next
          case (Some res)
          obtain err x1 where res: "res = (err, x1)" by (cases res)
          from "4.IH"(2)[OF refl refl, of "(err, x1)" err x1] True Inr mk \<open>mk = None\<close> Some res
          have IH2: "\<forall>errs x2. syncLocalToWebDAV_tasks n env cfg relativePath entries x1 = Some (errs, x2)
            \<longrightarrow> (errs \<noteq> [] \<longleftrightarrow> push_tasks_fail n env cfg relativePath entries x1)" by simp
          from IH1 Some res have e: "err \<noteq> None \<longleftrightarrow> push_fails n env cfg ?rel x0" by simp
          show ?thesis using True Inr mk \<open>mk = None\<close> Some res IH2 e
            by (cases err) (auto simp: Let_def split: option.splits prod.splits)
        qed
      qed
    qed
  qed
qed

lemma failed_download_fails_pass:
  assumes "SyncDirectory_tasks n env cfg pre x = Some (errs, xa)"
    and "\<not> IsDir file" and "fst (SyncFile env cfg file xa) \<noteq> None"
  shows "pull_tasks_fail n env cfg (pre @ file # post) x"
  using assms
proof (induction pre arbitrary: x errs)
  case Nil
  then show ?case by (cases "SyncFile env cfg file xa") auto
next
  case (Cons f fs)
  from Cons.prems(1) obtain err x1 rest where
    head: "(if IsDir f then
              (case os_MkdirAll env (fp_Join env (LocalDir cfg) (Path f)) x of
                 (Some e, x1) \<Rightarrow> Some (Some (Wrapf ''create local directory failed'' e), x1)
               | (None, x1) \<Rightarrow> SyncDirectory n env cfg (Path f) x1)
            else Some (SyncFile env cfg f x)) = Some (err, x1)"
    and rest: "SyncDirectory_tasks n env cfg fs x1 = Some (rest, xa)"
    by (auto split: option.splits prod.splits)
  from Cons.IH[OF rest Cons.prems(2,3)]
  have IH: "pull_tasks_fail n env cfg (fs @ file # post) x1" .
  show ?case using head IH
    by (auto split: option.splits prod.splits if_splits)
qed

lemma failed_upload_fails_pass:
  assumes "syncLocalToWebDAV_tasks n env cfg rel pre x = Some (errs, xa)"
    and "\<not> fi_IsDir entry"
    and "fst (syncLocalFileToWebDAV env cfg (fp_Join env rel (fi_Name entry))
            (fp_ToSlash env (if fp_Join env rel (fi_Name entry) = ''.'' then ''/''
                             else fp_Join env rel (fi_Name entry))) xa) \<noteq> None"
  shows "push_tasks_fail n env cfg rel (pre @ entry # post) x"
  using assms
proof (induction pre arbitrary: x errs)
  case Nil
  then show ?case
    by (cases "syncLocalFileToWebDAV env cfg (fp_Join env rel (fi_Name entry))
            (fp_ToSlash env (if fp_Join env rel (fi_Name entry) = ''.'' then ''/''
                             else fp_Join env rel (fi_Name entry))) xa") (auto simp: Let_def)
next
  case (Cons f fs)
  let ?rel = "fp_Join env rel (fi_Name f)"
  let ?rp = "fp_ToSlash env (if ?rel = ''.'' then ''/'' else ?rel)"
  from Cons.prems(1) obtain err x1 rest where
    head: "(if fi_IsDir f then
                 (case FileExists env ?rp x of
                    Inl e \<Rightarrow> Some (Some (Wrapf ''check remote directory failed'' e), x)
                  | Inr exists \<Rightarrow>
                      (case (if \<not> exists then MakeDir env ?rp x else (None, x)) of
                         (Some e, x1) \<Rightarrow> Some (Some (Wrapf ''create remote directory failed'' e), x1)
                       | (None, x1) \<Rightarrow> syncLocalToWebDAV n env cfg ?rel x1))
               else Some (syncLocalFileToWebDAV env cfg ?rel ?rp x)) = Some (err, x1)"
    and rest: "syncLocalToWebDAV_tasks n env cfg rel fs x1 = Some (rest, xa)"
    by (auto simp: Let_def split: option.splits prod.splits)
  from Cons.IH[OF rest Cons.prems(2,3)]
  have IH: "push_tasks_fail n env cfg rel (fs @ entry # post) x1" .
  show ?case
  proof (cases "fi_IsDir f")
    case False
    with head IH show ?thesis by (auto simp: Let_def split: option.splits prod.splits)
  next
    case True
    show ?thesis
    proof (cases "FileExists env ?rp x")
      case (Inl e)
      with True show ?thesis by (simp add: Let_def)
    next
      case (Inr exists)
      with True head IH show ?thesis
        by (cases "if \<not> exists then MakeDir env ?rp x else (None, x)")
           (auto simp: Let_def split: option.splits prod.splits)
    qed
  qed
qed

text \<open>
  A task that fails, in the state in which the pass reaches it, makes the tasks of its level
  fail, whatever precedes and follows it.
\<close>

lemma pull_tasks_fail_append:
  assumes "SyncDirectory_tasks n env cfg pre x = Some (errs, xa)"
    and "pull_tasks_fail n env cfg (file # post) xa"
  shows "pull_tasks_fail n env cfg (pre @ file # post) x"
  using assms
proof (induction pre arbitrary: x errs)
  case Nil
  then show ?case by simp
next
  case (Cons f fs)
  from Cons.prems(1) obtain err x1 rest where
    head: "(if IsDir f then
              (case os_MkdirAll env (fp_Join env (LocalDir cfg) (Path f)) x of
                 (Some e, x1) \<Rightarrow> Some (Some (Wrapf ''create local directory failed'' e), x1)
               | (None, x1) \<Rightarrow> SyncDirectory n env cfg (Path f) x1)
            else Some (SyncFile env cfg f x)) = Some (err, x1)"
    and rest: "SyncDirectory_tasks n env cfg fs x1 = Some (rest, xa)"
    by (auto split: option.splits prod.splits)
  from Cons.IH[OF rest Cons.prems(2)]
  have IH: "pull_tasks_fail n env cfg (fs @ file # post) x1" .
  show ?case using head IH
    by (auto split: option.splits prod.splits if_splits)
qed

lemma push_tasks_fail_append:
  assumes "syncLocalToWebDAV_tasks n env cfg rel pre x = Some (errs, xa)"
    and "push_tasks_fail n env cfg rel (entry # post) xa"
  shows "push_tasks_fail n env cfg rel (pre @ entry # post) x"
  using assms
proof (induction pre arbitrary: x errs)
  case Nil
  then show ?case by simp
next
  case (Cons f fs)
  let ?rel = "fp_Join env rel (fi_Name f)"
  let ?rp = "fp_ToSlash env (if ?rel = ''.'' then ''/'' else ?rel)"
  from Cons.prems(1) obtain err x1 rest where
    head: "(if fi_IsDir f then
                 (case FileExists env ?rp x of
                    Inl e \<Rightarrow> Some (Some (Wrapf ''check remote directory failed'' e), x)
                  | Inr exists \<Rightarrow>
                      (case (if \<not> exists then MakeDir env ?rp x else (None, x)) of
                         (Some e, x1) \<Rightarrow> Some (Some (Wrapf ''create remote directory failed'' e), x1)
                       | (None, x1) \<Rightarrow> syncLocalToWebDAV n env cfg ?rel x1))
               else Some (syncLocalFileToWebDAV env cfg ?rel ?rp x)) = Some (err, x1)"
    and rest: "syncLocalToWebDAV_tasks n env cfg rel fs x1 = Some (rest, xa)"
    by (auto simp: Let_def split: option.splits prod.splits)
  from Cons.IH[OF rest Cons.prems(2)]
  have IH: "push_tasks_fail n env cfg rel (fs @ entry # post) x1" .
  show ?case
  proof (cases "fi_IsDir f")
    case False
    with head IH show ?thesis by (auto simp: Let_def split: option.splits prod.splits)
  next
    case True
    show ?thesis
    proof (cases "FileExists env ?rp x")
      case (Inl e)
      with True show ?thesis by (simp add: Let_def)
    next
      case (Inr exists)
      with True head IH show ?thesis
        by (cases "if \<not> exists then MakeDir env ?rp x else (None, x)")
           (auto simp: Let_def split: option.splits prod.splits)
    qed
  qed
qed

lemma failed_directory_fails_pull:
  assumes "SyncDirectory_tasks n env cfg pre x = Some (errs, xa)"
    and "IsDir file"
    and "os_MkdirAll env (fp_Join env (LocalDir cfg) (Path file)) xa = (None, xb)"
    and "pull_fails n env cfg (Path file) xb"
  shows "pull_tasks_fail n env cfg (pre @ file # post) x"
proof -
  have "pull_tasks_fail n env cfg (file # post) xa" using assms(2-4) by simp
  with assms(1) show ?thesis by (rule pull_tasks_fail_append)
qed

lemma failed_directory_fails_push:
  assumes "syncLocalToWebDAV_tasks n env cfg rel pre x = Some (errs, xa)"
    and "fi_IsDir entry"
    and "FileExists env (fp_ToSlash env (if fp_Join env rel (fi_Name entry) = ''.'' then ''/''
                             else fp_Join env rel (fi_Name entry))) xa = Inr exists"
    and "(if \<not> exists
          then MakeDir env (fp_ToSlash env (if fp_Join env rel (fi_Name entry) = ''.'' then ''/''
                             else fp_Join env rel (fi_Name entry))) xa
          else (None, xa)) = (None, xb)"
    and "push_fails n env cfg (fp_Join env rel (fi_Name entry)) xb"
  shows "push_tasks_fail n env cfg rel (pre @ entry # post) x"
proof -
  have "push_tasks_fail n env cfg rel (entry # post) xa" using assms(2-5) by (simp add: Let_def)
  with assms(1) show ?thesis by (rule push_tasks_fail_append)
qed

lemma Restore_run:
  assumes en: "buildRemoteFileList fuel env ''/'' x = Some (Inr rf)"
    and pass: "SyncDirectory fuel env cfg ''/'' x = Some (e, x1)"
  shows "RestoreFromWebDAV fuel env cfg x =
     (if SyncDelete cfg \<and> \<not> pull_fails fuel env cfg ''/'' x then
        (case buildLocalFileList env cfg x1 of
           (lf, Some err) \<Rightarrow>
             Some (Some (Wrapf ''list local files failed'' err), x1,
                   [EnumerateRemote, MainPass, EnumerateLocal])
         | (lf, None) \<Rightarrow>
             Some (None,
                   fold (\<lambda>p x. snd (os_RemoveAll env (fp_Join env (LocalDir cfg) p) x))
                     (sortByLengthDesc (findExtraFiles lf rf)) x1,
                   [EnumerateRemote, MainPass, EnumerateLocal]
                   @ map (\<lambda>p. DeleteLocal (fp_Join env (LocalDir cfg) p))
                       (sortByLengthDesc (findExtraFiles lf rf))))
      else Some (e, x1, [EnumerateRemote, MainPass]))"
proof -
  from pull_error_iff(1)[of fuel env cfg "''/''" x] pass
  have "e \<noteq> None \<longleftrightarrow> pull_fails fuel env cfg ''/'' x" by blast
  then show ?thesis using en pass
    by (cases e) (auto simp: RestoreFromWebDAV_def Let_def split: prod.splits option.splits)
qed

lemma Backup_run:
  assumes loc: "buildLocalFileList env cfg x = (lf, None)"
    and pass: "syncLocalToWebDAV fuel env cfg ''/'' x = Some (e, x1)"
  shows "BackupToWebDAV fuel env cfg x =
     (if SyncDelete cfg \<and> \<not> push_fails fuel env cfg ''/'' x then
        (case buildRemoteFileList fuel env ''/'' x1 of
           None \<Rightarrow> None
         | Some (Inl err) \<Rightarrow>
             Some (Some (Wrapf ''list WebDAV files failed'' err), x1,
                   [EnumerateLocal, MainPass, EnumerateRemote])
         | Some (Inr rf) \<Rightarrow>
             Some (None,
                   fold (\<lambda>p x. snd (dav_Remove env p x)) (sortByLengthDesc (findExtraFiles rf lf)) x1,
                   [EnumerateLocal, MainPass, EnumerateRemote]
                   @ map DeleteRemote (sortByLengthDesc (findExtraFiles rf lf))))
      else Some (e, x1, [EnumerateLocal, MainPass]))"
proof -
  from push_error_iff(1)[of fuel env cfg "''/''" x] pass
  have "e \<noteq> None \<longleftrightarrow> push_fails fuel env cfg ''/'' x" by blast
  then show ?thesis using loc pass
    by (cases e) (auto simp: BackupToWebDAV_def Let_def split: sum.splits option.splits)
qed

text \<open>
  Claim C3, as amended. The main pass returns an error exactly when one of its tasks fails,
  at any depth: a listing, the creation of a directory, or a per-file transfer. In
  particular a per-file transfer that returns an error, in the state in which the pass
  reaches it, makes the tasks of its level fail, and so does a directory whose own pass
  fails, which carries a failure up from any depth. A run whose source enumeration succeeded
  removes the candidates exactly when mirror deletion is enabled, no task of the pass failed
  and the enumeration of the destination after the pass succeeded; then every candidate is
  handed to the removal. When a task of the pass failed, the run returns the error of the
  pass and the state the pass left, and nothing is enumerated or removed after the pass.
\<close>

theorem reconciliation_requires_clean_pass:
  "(buildRemoteFileList fuel env ''/'' x = Some (Inr rf)
    \<and> SyncDirectory fuel env cfg ''/'' x = Some (e, x1)
    \<longrightarrow> (e \<noteq> None \<longleftrightarrow> pull_fails fuel env cfg ''/'' x)
      \<and> RestoreFromWebDAV fuel env cfg x =
          (if SyncDelete cfg \<and> \<not> pull_fails fuel env cfg ''/'' x then
             (case buildLocalFileList env cfg x1 of
                (lf, Some err) \<Rightarrow>
                  Some (Some (Wrapf ''list local files failed'' err), x1,
                        [EnumerateRemote, MainPass, EnumerateLocal])
              | (lf, None) \<Rightarrow>
                  Some (None,
                        fold (\<lambda>p x. snd (os_RemoveAll env (fp_Join env (LocalDir cfg) p) x))
                          (sortByLengthDesc (findExtraFiles lf rf)) x1,
                        [EnumerateRemote, MainPass, EnumerateLocal]
                        @ map (\<lambda>p. DeleteLocal (fp_Join env (LocalDir cfg) p))
                            (sortByLengthDesc (findExtraFiles lf rf))))
           else Some (e, x1, [EnumerateRemote, MainPass])))
   \<and> (buildLocalFileList env cfg x = (lf', None)
    \<and> syncLocalToWebDAV fuel env cfg ''/'' x = Some (e', x1')
    \<longrightarrow> (e' \<noteq> None \<longleftrightarrow> push_fails fuel env cfg ''/'' x)
      \<and> BackupToWebDAV fuel env cfg x =
          (if SyncDelete cfg \<and> \<not> push_fails fuel env cfg ''/'' x then
             (case buildRemoteFileList fuel env ''/'' x1' of
                None \<Rightarrow> None
              | Some (Inl err) \<Rightarrow>
                  Some (Some (Wrapf ''list WebDAV files failed'' err), x1',
                        [EnumerateLocal, MainPass, EnumerateRemote])
              | Some (Inr rf') \<Rightarrow>
                  Some (None,
                        fold (\<lambda>p x. snd (dav_Remove env p x))
                          (sortByLengthDesc (findExtraFiles rf' lf')) x1',
                        [EnumerateLocal, MainPass, EnumerateRemote]
                        @ map DeleteRemote (sortByLengthDesc (findExtraFiles rf' lf'))))
           else Some (e', x1', [EnumerateLocal, MainPass])))
   \<and> (SyncDirectory_tasks n env cfg pre x = Some (errs, xa)
      \<and> \<not> IsDir file \<and> fst (SyncFile env cfg file xa) \<noteq> None
     \<longrightarrow> pull_tasks_fail n env cfg (pre @ file # post) x)
   \<and> (SyncDirectory_tasks n env cfg pre x = Some (errs, xa)
      \<and> IsDir dir
      \<and> os_MkdirAll env (fp_Join env (LocalDir cfg) (Path dir)) xa = (None, xb)
      \<and> pull_fails n env cfg (Path dir) xb
     \<longrightarrow> pull_tasks_fail n env cfg (pre @ dir # post) x)
   \<and> (syncLocalToWebDAV_tasks n env cfg rel pre' x = Some (errs', xa')
      \<and> \<not> fi_IsDir entry
      \<and> fst (syncLocalFileToWebDAV env cfg (fp_Join env rel (fi_Name entry))
               (fp_ToSlash env (if fp_Join env rel (fi_Name entry) = ''.'' then ''/''
                                else fp_Join env rel (fi_Name entry))) xa') \<noteq> None
     \<longrightarrow> push_tasks_fail n env cfg rel (pre' @ entry # post') x)
   \<and> (syncLocalToWebDAV_tasks n env cfg rel pre' x = Some (errs', xa')
      \<and> fi_IsDir sub
      \<and> FileExists env (fp_ToSlash env (if fp_Join env rel (fi_Name sub) = ''.'' then ''/''
                                        else fp_Join env rel (fi_Name sub))) xa' = Inr exists
      \<and> (if \<not> exists
          then MakeDir env (fp_ToSlash env (if fp_Join env rel (fi_Name sub) = ''.'' then ''/''
                                            else fp_Join env rel (fi_Name sub))) xa'
          else (None, xa')) = (None, xb')
      \<and> push_fails n env cfg (fp_Join env rel (fi_Name sub)) xb'
     \<longrightarrow> push_tasks_fail n env cfg rel (pre' @ sub # post') x)"
proof (intro conjI impI)
  assume a: "buildRemoteFileList fuel env ''/'' x = Some (Inr rf)
    \<and> SyncDirectory fuel env cfg ''/'' x = Some (e, x1)"
  then show "e \<noteq> None \<longleftrightarrow> pull_fails fuel env cfg ''/'' x"
    using pull_error_iff(1)[of fuel env cfg "''/''" x] by blast
  from a show "RestoreFromWebDAV fuel env cfg x =
          (if SyncDelete cfg \<and> \<not> pull_fails fuel env cfg ''/'' x then
             (case buildLocalFileList env cfg x1 of
                (lf, Some err) \<Rightarrow>
                  Some (Some (Wrapf ''list local files failed'' err), x1,
                        [EnumerateRemote, MainPass, EnumerateLocal])
              | (lf, None) \<Rightarrow>
                  Some (None,
                        fold (\<lambda>p x. snd (os_RemoveAll env (fp_Join env (LocalDir cfg) p) x))
                          (sortByLengthDesc (findExtraFiles lf rf)) x1,
                        [EnumerateRemote, MainPass, EnumerateLocal]
                        @ map (\<lambda>p. DeleteLocal (fp_Join env (LocalDir cfg) p))
                            (sortByLengthDesc (findExtraFiles lf rf))))
           else Some (e, x1, [EnumerateRemote, MainPass]))"
    using Restore_run[of fuel env x rf cfg e x1] by blast
next
  assume a: "buildLocalFileList env cfg x = (lf', None)
    \<and> syncLocalToWebDAV fuel env cfg ''/'' x = Some (e', x1')"
  then show "e' \<noteq> None \<longleftrightarrow> push_fails fuel env cfg ''/'' x"
    using push_error_iff(1)[of fuel env cfg "''/''" x] by blast
  from a show "BackupToWebDAV fuel env cfg x =
          (if SyncDelete cfg \<and> \<not> push_fails fuel env cfg ''/'' x then
             (case buildRemoteFileList fuel env ''/'' x1' of
                None \<Rightarrow> None
              | Some (Inl err) \<Rightarrow>
                  Some (Some (Wrapf ''list WebDAV files failed'' err), x1',
                        [EnumerateLocal, MainPass, EnumerateRemote])
              | Some (Inr rf') \<Rightarrow>
                  Some (None,
                        fold (\<lambda>p x. snd (dav_Remove env p x))
                          (sortByLengthDesc (findExtraFiles rf' lf')) x1',
                        [EnumerateLocal, MainPass, EnumerateRemote]
                        @ map DeleteRemote (sortByLengthDesc (findExtraFiles rf' lf'))))
           else Some (e', x1', [EnumerateLocal, MainPass]))"
    using Backup_run[of env cfg x lf' fuel e' x1'] by blast
next
  assume "SyncDirectory_tasks n env cfg pre x = Some (errs, xa)
      \<and> \<not> IsDir file \<and> fst (SyncFile env cfg file xa) \<noteq> None"
  then have "SyncDirectory_tasks n env cfg pre x = Some (errs, xa)" "\<not> IsDir file"
    "fst (SyncFile env cfg file xa) \<noteq> None" by simp_all
  then show "pull_tasks_fail n env cfg (pre @ file # post) x"
    by (rule failed_download_fails_pass)
next
  assume "SyncDirectory_tasks n env cfg pre x = Some (errs, xa)
      \<and> IsDir dir
      \<and> os_MkdirAll env (fp_Join env (LocalDir cfg) (Path dir)) xa = (None, xb)
      \<and> pull_fails n env cfg (Path dir) xb"
  then have "SyncDirectory_tasks n env cfg pre x = Some (errs, xa)" "IsDir dir"
    "os_MkdirAll env (fp_Join env (LocalDir cfg) (Path dir)) xa = (None, xb)"
    "pull_fails n env cfg (Path dir) xb" by simp_all
  then show "pull_tasks_fail n env cfg (pre @ dir # post) x"
    by (rule failed_directory_fails_pull)
next
  assume "syncLocalToWebDAV_tasks n env cfg rel pre' x = Some (errs', xa')
      \<and> \<not> fi_IsDir entry
      \<and> fst (syncLocalFileToWebDAV env cfg (fp_Join env rel (fi_Name entry))
               (fp_ToSlash env (if fp_Join env rel (fi_Name entry) = ''.'' then ''/''
                                else fp_Join env rel (fi_Name entry))) xa') \<noteq> None"
  then have "syncLocalToWebDAV_tasks n env cfg rel pre' x = Some (errs', xa')" "\<not> fi_IsDir entry"
    "fst (syncLocalFileToWebDAV env cfg (fp_Join env rel (fi_Name entry))
               (fp_ToSlash env (if fp_Join env rel (fi_Name entry) = ''.'' then ''/''
                                else fp_Join env rel (fi_Name entry))) xa') \<noteq> None" by simp_all
  then show "push_tasks_fail n env cfg rel (pre' @ entry # post') x"
    by (rule failed_upload_fails_pass)
next
  assume "syncLocalToWebDAV_tasks n env cfg rel pre' x = Some (errs', xa')
      \<and> fi_IsDir sub
      \<and> FileExists env (fp_ToSlash env (if fp_Join env rel (fi_Name sub) = ''.'' then ''/''
                                        else fp_Join env rel (fi_Name sub))) xa' = Inr exists
      \<and> (if \<not> exists
          then MakeDir env (fp_ToSlash env (if fp_Join env rel (fi_Name sub) = ''.'' then ''/''
                                            else fp_Join env rel (fi_Name sub))) xa'
          else (None, xa')) = (None, xb')
      \<and> push_fails n env cfg (fp_Join env rel (fi_Name sub)) xb'"
  then have "syncLocalToWebDAV_tasks n env cfg rel pre' x = Some (errs', xa')" "fi_IsDir sub"
    "FileExists env (fp_ToSlash env (if fp_Join env rel (fi_Name sub) = ''.'' then ''/''
                                        else fp_Join env rel (fi_Name sub))) xa' = Inr exists"
    "(if \<not> exists
          then MakeDir env (fp_ToSlash env (if fp_Join env rel (fi_Name sub) = ''.'' then ''/''
                                            else fp_Join env rel (fi_Name sub))) xa'
          else (None, xa')) = (None, xb')"
    "push_fails n env cfg (fp_Join env rel (fi_Name sub)) xb'" by simp_all
  then show "push_tasks_fail n env cfg rel (pre' @ sub # post') x"
    by (rule failed_directory_fails_push)
qed

text \<open>
  The claim as stated fails: in the broken pull world the root enumeration succeeds, the
  download of one file fails on every attempt, and the run ends after the main pass with
  the error of the pass; the local file that the server does not have is still there. In
  the broken push world the upload of one file fails, and the file that only the server has
  is still there. The same happens when the transfer that fails is one level down.
\<close>

theorem reconciliation_requires_clean_pass_counterexample:
  "SyncDelete cfg0
   \<and> buildRemoteFileList 5 mem_env ''/'' pull_world_broken
        = Some (Inr [''a'', ''a'', ''/a/b.txt'', ''x.txt''])
   \<and> error_of (RestoreFromWebDAV 5 mem_env cfg0 pull_world_broken)
        = Some (SyncErrors 1 (RetryFailed 3 (Some (Err ''unexpected EOF''))))
   \<and> phases_of (RestoreFromWebDAV 5 mem_env cfg0 pull_world_broken) = [EnumerateRemote, MainPass]
   \<and> map_of (local_tree (the (state_of (RestoreFromWebDAV 5 mem_env cfg0 pull_world_broken))))
        ''sync/old.txt'' = Some (File [9] (seconds 50))
   \<and> SyncDelete cfg_backup
   \<and> buildLocalFileList mem_env cfg_backup push_world_broken = ([''a.txt''], None)
   \<and> error_of (BackupToWebDAV 5 mem_env cfg_backup push_world_broken)
        = Some (SyncErrors 1
                  (RetryFailed 3 (Some (Wrapf ''upload failed'' (Err ''injected failure'')))))
   \<and> phases_of (BackupToWebDAV 5 mem_env cfg_backup push_world_broken) = [EnumerateLocal, MainPass]
   \<and> remote_tree (the (state_of (BackupToWebDAV 5 mem_env cfg_backup push_world_broken)))
        = [(''/old.txt'', File [9] (seconds 50))]
   \<and> error_of (RestoreFromWebDAV 5 mem_env cfg0 pull_world_deep_broken)
        = Some (SyncErrors 1 (SyncErrors 1 (RetryFailed 3 (Some (Err ''unexpected EOF'')))))
   \<and> phases_of (RestoreFromWebDAV 5 mem_env cfg0 pull_world_deep_broken)
        = [EnumerateRemote, MainPass]
   \<and> map_of (local_tree (the (state_of (RestoreFromWebDAV 5 mem_env cfg0 pull_world_deep_broken))))
        ''sync/old.txt'' = Some (File [9] (seconds 50))
   \<and> error_of (BackupToWebDAV 5 mem_env cfg_backup push_world_deep_broken)
        = Some (SyncErrors 1 (SyncErrors 1
                  (RetryFailed 3 (Some (Wrapf ''upload failed'' (Err ''injected failure''))))))
   \<and> phases_of (BackupToWebDAV 5 mem_env cfg_backup push_world_deep_broken)
        = [EnumerateLocal, MainPass]
   \<and> map_of (remote_tree (the (state_of (BackupToWebDAV 5 mem_env cfg_backup push_world_deep_broken))))
        ''/old.txt'' = Some (File [9] (seconds 50))"
  by code_simp

theorem reconciliation_requires_clean_pass_witness:
  "buildRemoteFileList 5 mem_env ''/'' pull_world
        = Some (Inr [''a'', ''a'', ''/a/b.txt'', ''x.txt''])
   \<and> returns (SyncDirectory 5 mem_env cfg0 ''/'' pull_world)
   \<and> fst (the (SyncDirectory 5 mem_env cfg0 ''/'' pull_world)) = None
   \<and> \<not> pull_fails 5 mem_env cfg0 ''/'' pull_world
   \<and> phases_of (RestoreFromWebDAV 5 mem_env cfg0 pull_world)
        = [EnumerateRemote, MainPass, EnumerateLocal,
           DeleteLocal ''sync/old.txt'', DeleteLocal ''sync/a/b.txt'']
   \<and> buildLocalFileList mem_env cfg_backup push_world_broken = ([''a.txt''], None)
   \<and> returns (syncLocalToWebDAV 5 mem_env cfg_backup ''/'' push_world_broken)
   \<and> fst (the (syncLocalToWebDAV 5 mem_env cfg_backup ''/'' push_world_broken)) \<noteq> None
   \<and> push_fails 5 mem_env cfg_backup ''/'' push_world_broken
   \<and> phases_of (BackupToWebDAV 5 mem_env cfg_backup push_world_broken) = [EnumerateLocal, MainPass]
   \<and> returns (SyncDirectory_tasks 4 mem_env cfg0
         [\<lparr>Path = ''a'', IsDir = True, LastModified = 0, Size = 0\<rparr>] pull_world_broken)
   \<and> \<not> IsDir remote_x
   \<and> fst (SyncFile mem_env cfg0 remote_x
            (snd (the (SyncDirectory_tasks 4 mem_env cfg0
               [\<lparr>Path = ''a'', IsDir = True, LastModified = 0, Size = 0\<rparr>] pull_world_broken))))
        \<noteq> None
   \<and> pull_tasks_fail 4 mem_env cfg0
        ([\<lparr>Path = ''a'', IsDir = True, LastModified = 0, Size = 0\<rparr>] @ remote_x # [])
        pull_world_broken
   \<and> \<not> fi_IsDir (local_x (seconds 100)\<lparr>fi_Name := ''a.txt''\<rparr>)
   \<and> fst (syncLocalFileToWebDAV mem_env cfg_backup ''/a.txt'' ''/a.txt'' push_world_broken) \<noteq> None
   \<and> push_tasks_fail 4 mem_env cfg_backup ''/''
        ([] @ (local_x (seconds 100)\<lparr>fi_Name := ''a.txt''\<rparr>) # []) push_world_broken
   \<and> IsDir \<lparr>Path = ''a'', IsDir = True, LastModified = 0, Size = 0\<rparr>
   \<and> fst (os_MkdirAll mem_env (fp_Join mem_env (LocalDir cfg0) ''a'') pull_world_deep_broken) = None
   \<and> pull_fails 4 mem_env cfg0 ''a''
        (snd (os_MkdirAll mem_env (fp_Join mem_env (LocalDir cfg0) ''a'') pull_world_deep_broken))
   \<and> pull_tasks_fail 4 mem_env cfg0
        ([] @ \<lparr>Path = ''a'', IsDir = True, LastModified = 0, Size = 0\<rparr> # [remote_x])
        pull_world_deep_broken
   \<and> fi_IsDir \<lparr>fi_Name = ''d'', fi_IsDir = True, fi_ModTime = 0, fi_Size = 0\<rparr>
   \<and> FileExists mem_env ''/d'' push_world_deep_broken = Inr False
   \<and> fst (MakeDir mem_env ''/d'' push_world_deep_broken) = None
   \<and> push_fails 4 mem_env cfg_backup ''/d'' (snd (MakeDir mem_env ''/d'' push_world_deep_broken))
   \<and> push_tasks_fail 4 mem_env cfg_backup ''/''
        ([] @ \<lparr>fi_Name = ''d'', fi_IsDir = True, fi_ModTime = 0, fi_Size = 0\<rparr> # [])
        push_world_deep_broken"
proof -
  let ?S = "SyncDirectory 5 mem_env cfg0 ''/'' pull_world"
  let ?L = "syncLocalToWebDAV 5 mem_env cfg_backup ''/'' push_world_broken"
  let ?a = "\<lparr>Path = ''a'', IsDir = True, LastModified = 0, Size = 0\<rparr>"
  let ?T = "SyncDirectory_tasks 4 mem_env cfg0 [?a] pull_world_broken"
  let ?f = "local_x (seconds 100)\<lparr>fi_Name := ''a.txt''\<rparr>"
  let ?d = "\<lparr>fi_Name = ''d'', fi_IsDir = True, fi_ModTime = 0, fi_Size = 0\<rparr>"
  let ?xb = "snd (os_MkdirAll mem_env (fp_Join mem_env (LocalDir cfg0) ''a'') pull_world_deep_broken)"
  let ?yb = "snd (MakeDir mem_env ''/d'' push_world_deep_broken)"
  have a1: "buildRemoteFileList 5 mem_env ''/'' pull_world
        = Some (Inr [''a'', ''a'', ''/a/b.txt'', ''x.txt''])" by code_simp
  have a2: "returns ?S" by code_simp
  have a3: "fst (the ?S) = None" by code_simp
  have a4: "buildLocalFileList mem_env cfg0 (snd (the ?S))
        = ([''old.txt'', ''a'', ''a/b.txt'', ''x.txt''], None)" by code_simp
  have a5: "SyncDelete cfg0" "SyncDelete cfg_backup" by code_simp+
  have d1: "map (\<lambda>p. DeleteLocal (fp_Join mem_env (LocalDir cfg0) p))
             (sortByLengthDesc (findExtraFiles [''old.txt'', ''a'', ''a/b.txt'', ''x.txt'']
                                  [''a'', ''a'', ''/a/b.txt'', ''x.txt'']))
        = [DeleteLocal ''sync/old.txt'', DeleteLocal ''sync/a/b.txt'']" by code_simp
  note i1 = reconciliation_requires_clean_pass[of 5 mem_env pull_world
      "[''a'', ''a'', ''/a/b.txt'', ''x.txt'']" cfg0 "fst (the ?S)" "snd (the ?S)"
      "[]" None pull_world 4 "[]" "[]" pull_world remote_x "[]" ?a pull_world
      "''/''" "[]" "[]" pull_world ?f "[]" ?d False pull_world]
  from i1 a1 returns_pair[OF a2] a3 have c1: "\<not> pull_fails 5 mem_env cfg0 ''/'' pull_world"
    by blast
  from i1 a1 returns_pair[OF a2] have "RestoreFromWebDAV 5 mem_env cfg0 pull_world =
          (if SyncDelete cfg0 \<and> \<not> pull_fails 5 mem_env cfg0 ''/'' pull_world then
             (case buildLocalFileList mem_env cfg0 (snd (the ?S)) of
                (lf, Some err) \<Rightarrow>
                  Some (Some (Wrapf ''list local files failed'' err), snd (the ?S),
                        [EnumerateRemote, MainPass, EnumerateLocal])
              | (lf, None) \<Rightarrow>
                  Some (None,
                        fold (\<lambda>p x. snd (os_RemoveAll mem_env (fp_Join mem_env (LocalDir cfg0) p) x))
                          (sortByLengthDesc (findExtraFiles lf [''a'', ''a'', ''/a/b.txt'', ''x.txt'']))
                          (snd (the ?S)),
                        [EnumerateRemote, MainPass, EnumerateLocal]
                        @ map (\<lambda>p. DeleteLocal (fp_Join mem_env (LocalDir cfg0) p))
                            (sortByLengthDesc (findExtraFiles lf [''a'', ''a'', ''/a/b.txt'', ''x.txt'']))))
           else Some (fst (the ?S), snd (the ?S), [EnumerateRemote, MainPass]))"
    by blast
  then have c2: "phases_of (RestoreFromWebDAV 5 mem_env cfg0 pull_world)
        = [EnumerateRemote, MainPass, EnumerateLocal,
           DeleteLocal ''sync/old.txt'', DeleteLocal ''sync/a/b.txt'']"
    using c1 a5 by (simp add: a4 phases_of_def d1)
  have b1: "buildLocalFileList mem_env cfg_backup push_world_broken = ([''a.txt''], None)"
    by code_simp
  have b2: "returns ?L" by code_simp
  have b3: "fst (the ?L) \<noteq> None" by code_simp
  note i2 = reconciliation_requires_clean_pass[of 5 mem_env push_world_broken "[]" cfg_backup None
      push_world_broken "[''a.txt'']" "fst (the ?L)" "snd (the ?L)"
      4 "[]" "[]" push_world_broken remote_x "[]" ?a push_world_broken
      "''/''" "[]" "[]" push_world_broken ?f "[]" ?d False push_world_broken]
  from i2 b1 returns_pair[OF b2] b3 have c3: "push_fails 5 mem_env cfg_backup ''/'' push_world_broken"
    by blast
  from i2 b1 returns_pair[OF b2]
  have "BackupToWebDAV 5 mem_env cfg_backup push_world_broken =
          (if SyncDelete cfg_backup \<and> \<not> push_fails 5 mem_env cfg_backup ''/'' push_world_broken then
             (case buildRemoteFileList 5 mem_env ''/'' (snd (the ?L)) of
                None \<Rightarrow> None
              | Some (Inl err) \<Rightarrow>
                  Some (Some (Wrapf ''list WebDAV files failed'' err), snd (the ?L),
                        [EnumerateLocal, MainPass, EnumerateRemote])
              | Some (Inr rf') \<Rightarrow>
                  Some (None,
                        fold (\<lambda>p x. snd (dav_Remove mem_env p x))
                          (sortByLengthDesc (findExtraFiles rf' [''a.txt''])) (snd (the ?L)),
                        [EnumerateLocal, MainPass, EnumerateRemote]
                        @ map DeleteRemote (sortByLengthDesc (findExtraFiles rf' [''a.txt'']))))
           else Some (fst (the ?L), snd (the ?L), [EnumerateLocal, MainPass]))"
    by blast
  with c3 have "BackupToWebDAV 5 mem_env cfg_backup push_world_broken
      = Some (fst (the ?L), snd (the ?L), [EnumerateLocal, MainPass])"
    by simp
  then have c4: "phases_of (BackupToWebDAV 5 mem_env cfg_backup push_world_broken)
      = [EnumerateLocal, MainPass]"
    by (simp add: phases_of_def)
  have t1: "returns ?T" by code_simp
  have t2: "\<not> IsDir remote_x" by code_simp
  have t3: "fst (SyncFile mem_env cfg0 remote_x (snd (the ?T))) \<noteq> None" by code_simp
  note i3 = reconciliation_requires_clean_pass[of 5 mem_env pull_world_broken "[]" cfg0 None
      pull_world_broken "[]" None pull_world_broken 4 "[?a]" "fst (the ?T)" "snd (the ?T)"
      remote_x "[]" ?a pull_world_broken "''/''" "[]" "[]" pull_world_broken ?f "[]" ?d False
      pull_world_broken]
  from i3 returns_pair[OF t1] t2 t3
  have c5: "pull_tasks_fail 4 mem_env cfg0 ([?a] @ remote_x # []) pull_world_broken" by blast
  have u1: "syncLocalToWebDAV_tasks 4 mem_env cfg_backup ''/'' [] push_world_broken
      = Some ([], push_world_broken)" by simp
  have u2: "\<not> fi_IsDir ?f" by code_simp
  have u3: "fst (syncLocalFileToWebDAV mem_env cfg_backup ''/a.txt'' ''/a.txt'' push_world_broken)
      \<noteq> None" by code_simp
  have u4: "fst (syncLocalFileToWebDAV mem_env cfg_backup (fp_Join mem_env ''/'' (fi_Name ?f))
               (fp_ToSlash mem_env (if fp_Join mem_env ''/'' (fi_Name ?f) = ''.'' then ''/''
                                else fp_Join mem_env ''/'' (fi_Name ?f))) push_world_broken) \<noteq> None"
    by code_simp
  note i4 = reconciliation_requires_clean_pass[of 4 mem_env push_world_broken "[]" cfg_backup None
      push_world_broken "[]" None push_world_broken 4 "[]" "[]" push_world_broken remote_x "[]"
      ?a push_world_broken "''/''" "[]" "[]" push_world_broken ?f "[]" ?d False push_world_broken]
  from i4 u1 u2 u4
  have c6: "push_tasks_fail 4 mem_env cfg_backup ''/'' ([] @ ?f # []) push_world_broken"
    by blast
  have v1: "SyncDirectory_tasks 4 mem_env cfg0 [] pull_world_deep_broken
      = Some ([], pull_world_deep_broken)" by simp
  have v2: "IsDir ?a" by simp
  have v3: "fst (os_MkdirAll mem_env (fp_Join mem_env (LocalDir cfg0) ''a'') pull_world_deep_broken)
      = None" by code_simp
  have v4: "pull_fails 4 mem_env cfg0 ''a'' ?xb" by code_simp
  have v5: "os_MkdirAll mem_env (fp_Join mem_env (LocalDir cfg0) (Path ?a)) pull_world_deep_broken
      = (None, ?xb)" using v3 by (simp add: prod_eq_iff)
  have v6: "pull_fails 4 mem_env cfg0 (Path ?a) ?xb" using v4 by simp
  note i5 = reconciliation_requires_clean_pass[of 4 mem_env pull_world_deep_broken "[]" cfg0 None
      pull_world_deep_broken "[]" None pull_world_deep_broken 4 "[]" "[]" pull_world_deep_broken
      remote_x "[remote_x]" ?a ?xb "''/''" "[]" "[]" pull_world_deep_broken ?f "[]" ?d False
      pull_world_deep_broken]
  from i5 v1 v2 v5 v6
  have c7: "pull_tasks_fail 4 mem_env cfg0 ([] @ ?a # [remote_x]) pull_world_deep_broken"
    by blast
  have w1: "syncLocalToWebDAV_tasks 4 mem_env cfg_backup ''/'' [] push_world_deep_broken
      = Some ([], push_world_deep_broken)" by simp
  have w2: "fi_IsDir ?d" by simp
  have w3: "FileExists mem_env ''/d'' push_world_deep_broken = Inr False" by code_simp
  have w4: "fst (MakeDir mem_env ''/d'' push_world_deep_broken) = None" by code_simp
  have w5: "push_fails 4 mem_env cfg_backup ''/d'' ?yb" by code_simp
  have k1: "fp_ToSlash mem_env (if fp_Join mem_env ''/'' (fi_Name ?d) = ''.'' then ''/''
                                else fp_Join mem_env ''/'' (fi_Name ?d)) = ''/d''" by code_simp
  have k2: "fp_Join mem_env ''/'' (fi_Name ?d) = ''/d''" by code_simp
  have w6: "FileExists mem_env (fp_ToSlash mem_env (if fp_Join mem_env ''/'' (fi_Name ?d) = ''.''
                then ''/'' else fp_Join mem_env ''/'' (fi_Name ?d))) push_world_deep_broken = Inr False"
    unfolding k1 by (rule w3)
  have w7: "(if \<not> False
          then MakeDir mem_env (fp_ToSlash mem_env (if fp_Join mem_env ''/'' (fi_Name ?d) = ''.''
                then ''/'' else fp_Join mem_env ''/'' (fi_Name ?d))) push_world_deep_broken
          else (None, push_world_deep_broken)) = (None, ?yb)"
    unfolding k1 using w4 by (simp add: prod_eq_iff)
  have w8: "push_fails 4 mem_env cfg_backup (fp_Join mem_env ''/'' (fi_Name ?d)) ?yb"
    unfolding k2 by (rule w5)
  note i6 = reconciliation_requires_clean_pass[of 4 mem_env push_world_deep_broken "[]" cfg_backup
      None push_world_deep_broken "[]" None push_world_deep_broken 4 "[]" "[]"
      push_world_deep_broken remote_x "[]" ?a push_world_deep_broken "''/''" "[]" "[]"
      push_world_deep_broken ?f "[]" ?d False ?yb]
  from i6 w1 w2 w6 w7 w8
  have c8: "push_tasks_fail 4 mem_env cfg_backup ''/'' ([] @ ?d # []) push_world_deep_broken"
    by blast
  show ?thesis
    using a1 a2 a3 c1 c2 b1 b2 b3 c3 c4 t1 t2 t3 c5 u2 u3 c6 v2 v3 v4 c7 w2 w3 w4 w5 c8 by blast
qed

subsection \<open>Whether a file is transferred\<close>

lemma withinOneSecond_abs:
  "withinOneSecond localModTime remoteModTime \<longleftrightarrow> \<bar>localModTime - remoteModTime\<bar> < Second"
  by (auto simp: withinOneSecond_def)

text \<open>
  For every input: a file whose destination exists is transferred exactly when the two
  times differ by at least one second, so also when they differ by exactly one second.
\<close>

lemma needsDownload_iff:
  "needsDownload (Inl err) file"
  "needsDownload (Inr info) file \<longleftrightarrow> \<bar>fi_ModTime info - LastModified file\<bar> \<ge> Second"
  by (auto simp: needsDownload_def withinOneSecond_abs)

lemma needsUpload_scan_find:
  "needsUpload_scan base t remotePath remoteFiles \<longleftrightarrow>
     (case find (\<lambda>rf. base (Path rf) = base remotePath) remoteFiles of
        None \<Rightarrow> True
      | Some rf \<Rightarrow> \<bar>t - LastModified rf\<bar> \<ge> Second)"
  by (induction remoteFiles) (auto simp: withinOneSecond_abs)

lemma needsUpload_iff:
  "needsUpload base localInfo remotePath False remoteFiles"
  "needsUpload base localInfo remotePath True remoteFiles \<longleftrightarrow>
     (case find (\<lambda>rf. base (Path rf) = base remotePath) remoteFiles of
        None \<Rightarrow> True
      | Some rf \<Rightarrow> \<bar>fi_ModTime localInfo - LastModified rf\<bar> \<ge> Second)"
  by (simp_all add: needsUpload_def needsUpload_scan_find)

lemma exactly_one_second_apart:
  "needsDownload (Inr (info\<lparr>fi_ModTime := LastModified file - Second\<rparr>)) file"
  "needsDownload (Inr (info\<lparr>fi_ModTime := LastModified file + Second\<rparr>)) file"
  by (simp_all add: needsDownload_iff)

text \<open>
  Claim C1, on the code. The local file \<^verbatim>\<open>sync/x.txt\<close> was last modified exactly one second
  before the file \<^verbatim>\<open>x.txt\<close> on the server. On a pull \<open>SyncFile\<close> finds that the file needs
  a download and downloads it; on a push \<open>syncLocalFileToWebDAV\<close> finds that it needs an
  upload and uploads it. With the local time one nanosecond later the file is skipped in
  both directions, and a local copy that carries the time of the remote file is left alone.
  The source compares with \<^verbatim>\<open>After\<close> and \<^verbatim>\<open>Before\<close>, which are strict, under a comment
  that allows a difference of one second.
\<close>

theorem transfer_at_exactly_one_second:
  "\<bar>fi_ModTime (local_x (seconds 299)) - LastModified remote_x\<bar> = Second
   \<and> os_Stat mem_env ''sync/x.txt'' one_second_world = Inr (local_x (seconds 299))
   \<and> needsDownload (Inr (local_x (seconds 299))) remote_x
   \<and> journal (snd (SyncFile mem_env cfg0 remote_x one_second_world))
       = [OsCreate ''sync/x.txt.download'', IoCopy ''sync/x.txt.download'',
          OsRename ''sync/x.txt.download'' ''sync/x.txt'', OsChtimes ''sync/x.txt'']
   \<and> needsUpload Base (local_x (seconds 299)) ''/x.txt'' True [remote_x]
   \<and> journal (snd (syncLocalFileToWebDAV mem_env cfg_backup ''/x.txt'' ''/x.txt'' one_second_world))
       = [DavWriteStream ''/x.txt'']
   \<and> \<not> needsDownload (Inr (local_x (seconds 299 + 1))) remote_x
   \<and> \<not> needsUpload Base (local_x (seconds 299 + 1)) ''/x.txt'' True [remote_x]
   \<and> journal (snd (SyncFile mem_env cfg0 remote_x in_sync_world)) = []"
  by code_simp

subsection \<open>Enumerating the remote tree\<close>

text \<open>
  A directory listed at some level is appended by the loop over the entries and again, as
  its own path, by the recursive call: it occurs at least twice in the result.
\<close>

lemma buildRemoteFileList_own_path:
  assumes "buildRemoteFileList n env remotePath x = Some (Inr files)"
    and "remotePath \<noteq> ''/''" and "remotePath \<noteq> []"
  shows "\<exists>rest. files = remotePath # rest"
  using assms
  by (cases n) (auto split: sum.splits option.splits)

lemma buildRemoteFileList_entries_twice:
  assumes "buildRemoteFileList_entries n env entries x = Some (Inr files)"
    and "entry \<in> set entries" and "IsDir entry"
    and "Path entry \<noteq> ''/''" and "Path entry \<noteq> []"
  shows "count_list files (Path entry) \<ge> 2"
  using assms
proof (induction entries arbitrary: files)
  case Nil
  then show ?case by simp
next
  case (Cons e es)
  from Cons.prems(1) obtain subFiles more where
    sub: "(if IsDir e then buildRemoteFileList n env (Path e) x else Some (Inr [])) = Some (Inr subFiles)"
    and more: "buildRemoteFileList_entries n env es x = Some (Inr more)"
    and files: "files = Path e # subFiles @ more"
    by (auto split: option.splits sum.splits)
  show ?case
  proof (cases "entry = e")
    case True
    with sub Cons.prems(3) have "buildRemoteFileList n env (Path entry) x = Some (Inr subFiles)"
      by simp
    from buildRemoteFileList_own_path[OF this Cons.prems(4,5)]
    obtain rest where "subFiles = Path entry # rest" by blast
    with files True show ?thesis by simp
  next
    case False
    with Cons.prems(2) have "entry \<in> set es" by simp
    from Cons.IH[OF more this Cons.prems(3,4,5)] have "count_list more (Path entry) \<ge> 2" .
    then show ?thesis by (simp add: files)
  qed
qed

lemma buildRemoteFileList_twice:
  assumes "buildRemoteFileList (Suc n) env remotePath x = Some (Inr files)"
    and "ListFiles env remotePath x = Inr entries"
    and "entry \<in> set entries" and "IsDir entry"
    and "Path entry \<noteq> ''/''" and "Path entry \<noteq> []"
  shows "count_list files (Path entry) \<ge> 2 \<and> \<not> distinct files"
proof -
  from assms(1,2) obtain sub where
    sub: "buildRemoteFileList_entries n env entries x = Some (Inr sub)"
    and files: "files = (if remotePath \<noteq> ''/'' \<and> remotePath \<noteq> [] then [remotePath] else []) @ sub"
    by (auto split: option.splits sum.splits)
  from buildRemoteFileList_entries_twice[OF sub assms(3-6)]
  have "count_list sub (Path entry) \<ge> 2" .
  then have c: "count_list files (Path entry) \<ge> 2" by (simp add: files)
  have "\<not> distinct files"
  proof
    assume "distinct files"
    then have "count_list files (Path entry) \<le> 1"
      by (simp add: distinct_count_atmost_1 count_mset[symmetric] del: count_mset)
    with c show False by simp
  qed
  with c show ?thesis by simp
qed

text \<open>
  Claim C7, on the code. The remote enumeration of the pull world, whose root holds the
  directory \<^verbatim>\<open>a\<close>, lists \<^verbatim>\<open>a\<close> twice, so the list is not free of repetitions. On
  a push with mirror deletion, a directory that only the server has is a deletion candidate
  twice: it is removed by the first call and the second call fails.
\<close>

theorem buildRemoteFileList_lists_directory_twice:
  "buildRemoteFileList 5 mem_env ''/'' pull_world
      = Some (Inr [''a'', ''a'', ''/a/b.txt'', ''x.txt''])
   \<and> \<not> distinct [''a'', ''a'', ''/a/b.txt'', ''x.txt'']
   \<and> phases_of (BackupToWebDAV 5 mem_env cfg_backup stale_remote_world)
      = [EnumerateLocal, MainPass, EnumerateRemote, DeleteRemote ''stale'', DeleteRemote ''stale'']
   \<and> journal (the (state_of (BackupToWebDAV 5 mem_env cfg_backup stale_remote_world)))
      = [DavRemove ''stale'']"
  by code_simp

subsection \<open>Running a pull twice\<close>

lemma Retry_loop_success_state:
  "Retry_loop attempts i sleep operation pause err s = (None, s', evs) \<Longrightarrow>
     \<exists>s0. operation s0 = (None, s')"
proof (induction attempts i sleep operation pause err s arbitrary: s' evs rule: Retry_loop.induct)
  case (1 attempts i sleep operation pause err s)
  show ?case
  proof (cases "i < attempts")
    case False
    with "1.prems" show ?thesis by simp
  next
    case lt: True
    obtain res s1 where op: "operation s = (res, s1)" by (cases "operation s")
    show ?thesis
    proof (cases res)
      case None
      with op lt "1.prems" have "s' = s1" by (simp add: Retry_loop_ok del: Retry_loop.simps)
      with op None show ?thesis by blast
    next
      case (Some e)
      show ?thesis
      proof (cases "i < attempts - 1")
        case False
        with op Some lt "1.prems" show ?thesis
          by (simp add: Retry_loop_last del: Retry_loop.simps)
      next
        case True
        with op Some "1.prems" obtain evs2 where
          "Retry_loop attempts (i + 1) (sleep * 2) operation pause (Some e) (pause sleep s1)
             = (None, s', evs2)"
          by (auto simp add: Retry_loop_again simp del: Retry_loop.simps split: prod.splits)
        from "1.IH"(1)[OF lt op[symmetric] Some True this] show ?thesis .
      qed
    qed
  qed
qed

lemma DownloadFile_success_mtime:
  assumes "DownloadFile mem_env remotePath localPath t m = (None, m')"
  shows "\<exists>bytes. map_of (local_tree m') localPath = Some (File bytes t)"
  using assms
  by (auto simp: DownloadFile_def Let_def mem_env_fields mem_os_Create_def mem_io_Copy_def
        mem_file_Close_def mem_os_Rename_def mem_os_Chtimes_def update_conv' delete_conv'
      split: sum.splits option.splits if_splits prod.splits node.splits)

text \<open>
  A file whose \<open>SyncFile\<close> returned \<^verbatim>\<open>nil\<close> is skipped by the next \<open>SyncFile\<close>: a
  successful download leaves the local file with the modification time of the remote one.
\<close>

lemma second_pull_skips:
  assumes run: "SyncFile mem_env cfg file m = (None, m')"
    and stat: "\<not> faulty m' (OsStat (fp_Join mem_env (LocalDir cfg) (Path file)))"
  shows "\<not> needsDownload (os_Stat mem_env (fp_Join mem_env (LocalDir cfg) (Path file)) m') file
     \<and> SyncFile mem_env cfg file m' = (None, m')"
proof -
  let ?lp = "fp_Join mem_env (LocalDir cfg) (Path file)"
  have skip: "\<not> needsDownload (os_Stat mem_env ?lp m') file"
  proof (cases "needsDownload (os_Stat mem_env ?lp m) file")
    case False
    with run have "m' = m" by (simp add: SyncFile_def Let_def)
    with False show ?thesis by simp
  next
    case True
    obtain r x1 where mk: "os_MkdirAll mem_env (fp_Dir mem_env ?lp) m = (r, x1)"
      by (cases "os_MkdirAll mem_env (fp_Dir mem_env ?lp) m")
    with run True have r: "r = None" by (cases r) (simp_all add: SyncFile_def Let_def)
    with run True mk obtain evs where
      "Retry (MaxRetries cfg) (RetryDelay cfg)
         (DownloadFile mem_env (Path file) ?lp (LastModified file)) (time_Sleep mem_env) x1
        = (None, m', evs)"
      by (auto simp: SyncFile_def Let_def split: prod.splits)
    from Retry_loop_success_state[OF this[unfolded Retry_def]]
    obtain s0 where "DownloadFile mem_env (Path file) ?lp (LastModified file) s0 = (None, m')"
      by blast
    from DownloadFile_success_mtime[OF this]
    obtain bytes where "map_of (local_tree m') ?lp = Some (File bytes (LastModified file))"
      by blast
    with stat show ?thesis
      by (simp add: needsDownload_def mem_env_fields mem_os_Stat_def info_of_def
          withinOneSecond_def Second_def)
  qed
  then show ?thesis by (simp add: SyncFile_def Let_def)
qed

text \<open>In the pull world, without mirror deletion, a second run writes nothing.\<close>

lemma second_pull_transfers_nothing:
  "error_of (RestoreFromWebDAV 5 mem_env (cfg0\<lparr>SyncDelete := False\<rparr>) pull_world) = None
   \<and> journal (the (state_of (RestoreFromWebDAV 5 mem_env (cfg0\<lparr>SyncDelete := False\<rparr>)
        (the (state_of (RestoreFromWebDAV 5 mem_env (cfg0\<lparr>SyncDelete := False\<rparr>) pull_world))))))
     = journal (the (state_of (RestoreFromWebDAV 5 mem_env (cfg0\<lparr>SyncDelete := False\<rparr>) pull_world)))"
  by code_simp

subsection \<open>Running a push twice\<close>

lemma UploadFile_ignores_localModTime:
  "UploadFile env localPath remotePath t1 x = UploadFile env localPath remotePath t2 x"
  by (simp add: UploadFile_def)


text \<open>
  Claim C9, on the code. In the push world the first run uploads \<^verbatim>\<open>a.txt\<close>; the server
  stamps it with its own clock (second 1000) while the local file keeps its time (second
  100), since the upload does not pass the local time on. The second run, with nothing
  changed in between, finds the two times more than a second apart and uploads the file
  again.
\<close>

theorem second_push_uploads_again:
  "error_of (BackupToWebDAV 5 mem_env cfg_backup push_world) = None
   \<and> journal (the (state_of (BackupToWebDAV 5 mem_env cfg_backup push_world)))
      = [DavWriteStream ''/a.txt'']
   \<and> map_of (local_tree (the (state_of (BackupToWebDAV 5 mem_env cfg_backup push_world))))
        ''sync/a.txt'' = Some (File [1, 2, 3] (seconds 100))
   \<and> map_of (remote_tree (the (state_of (BackupToWebDAV 5 mem_env cfg_backup push_world))))
        ''/a.txt'' = Some (File [1, 2, 3] (seconds 1000))
   \<and> error_of (BackupToWebDAV 5 mem_env cfg_backup
                  (the (state_of (BackupToWebDAV 5 mem_env cfg_backup push_world)))) = None
   \<and> journal (the (state_of (BackupToWebDAV 5 mem_env cfg_backup
                  (the (state_of (BackupToWebDAV 5 mem_env cfg_backup push_world))))))
      = [DavWriteStream ''/a.txt'', DavWriteStream ''/a.txt'']"
  by code_simp

end
